theory Spec2Isabelle
  imports Main "HOL-Library.Sublist"
begin

section \<open>Strings and arrays of the JavaScript runtime\<close>

text \<open>
  JavaScript strings are modelled as \<open>string\<close> (lists of 8-bit characters). The
  functions below are the library calls the resolver and the executor make:
  \<^verbatim>\<open>Array.prototype.join\<close>, \<^verbatim>\<open>String.prototype.includes\<close>,
  \<^verbatim>\<open>startsWith\<close>, \<^verbatim>\<open>endsWith\<close>, \<^verbatim>\<open>toLowerCase\<close> (on the ASCII letters;
  other characters are left as they are) and the decimal rendering of a number inside a
  template literal.
\<close>

fun join_with :: "string \<Rightarrow> string list \<Rightarrow> string" where
  "join_with sep [] = []"
| "join_with sep [x] = x"
| "join_with sep (x # y # ys) = x @ sep @ join_with sep (y # ys)"

fun str_includes :: "string \<Rightarrow> string \<Rightarrow> bool" where
  "str_includes [] t = (t = [])"
| "str_includes (c # cs) t = (prefix t (c # cs) \<or> str_includes cs t)"

definition startsWith :: "string \<Rightarrow> string \<Rightarrow> bool" where
  "startsWith s p = prefix p s"

definition endsWith :: "string \<Rightarrow> string \<Rightarrow> bool" where
  "endsWith s e = suffix e s"

definition lower_char :: "char \<Rightarrow> char" where
  "lower_char c =
     (if 65 \<le> (of_char c :: nat) \<and> (of_char c :: nat) \<le> 90
      then char_of ((of_char c :: nat) + 32) else c)"

definition toLowerCase :: "string \<Rightarrow> string" where
  "toLowerCase s = map lower_char s"

definition digit_char :: "nat \<Rightarrow> char" where
  "digit_char d = char_of (48 + d)"

fun show_nat :: "nat \<Rightarrow> string" where
  "show_nat n = (if n < 10 then [digit_char n] else show_nat (n div 10) @ [digit_char (n mod 10)])"

declare show_nat.simps [simp del]

definition show_int :: "int \<Rightarrow> string" where
  "show_int i = (if i < 0 then ''-'' @ show_nat (nat (- i)) else show_nat (nat i))"

definition nl :: string where
  "nl = [CHR 0x0A]"

definition apos :: string where
  "apos = [CHR 0x27]"

text \<open>The truthiness test \<^verbatim>\<open>if (s)\<close> on a value of type \<^verbatim>\<open>string | undefined\<close>:
  \<^verbatim>\<open>undefined\<close> and the empty string are falsy.\<close>

definition truthy :: "string option \<Rightarrow> bool" where
  "truthy s = (case s of None \<Rightarrow> False | Some v \<Rightarrow> v \<noteq> [])"

section \<open>Data model (types/index.ts, core/config.ts)\<close>

type_synonym env = "string \<rightharpoonup> string"

datatype RunnerType = npm | pnpm | yarn | npx

fun runner_name :: "RunnerType \<Rightarrow> string" where
  "runner_name npm = ''npm''"
| "runner_name pnpm = ''pnpm''"
| "runner_name yarn = ''yarn''"
| "runner_name npx = ''npx''"

record PreCommand =
  pc_argv :: "string list"
  pc_env :: "env option"
  pc_cwd :: "string option"

record RunSpec =
  projectRoot :: string
  artifactsDir :: string
  timeoutSeconds :: nat
  spec_script :: "string option"
  spec_configPath :: "string option"
  spec_runner :: "RunnerType option"
  spec_args :: "string list option"
  spec_env :: "env option"
  spec_preCommands :: "PreCommand list option"
  skipSetup :: "bool option"
  testName :: "string option"
  spec_outputDir :: "string option"

text \<open>The data that \<^verbatim>\<open>KitweConfigSchema.safeParse\<close> yields for kitwe.yaml, with the
  schema's defaults applied (\<open>args\<close> defaults to the empty list, \<open>skip_setup\<close> to false;
  the \<open>setup\<close>, \<open>run\<close> and \<open>tests\<close> sections default to empty objects). The \<open>project\<close>
  and \<open>auth\<close> sections are read by neither the resolver nor the executor and are left
  out.\<close>

record raw_setup =
  setup_pre_commands :: "PreCommand list option"

record raw_run =
  raw_runner :: "RunnerType option"
  raw_script :: "string option"
  raw_config_path :: "string option"
  raw_args :: "string list"
  raw_timeout_seconds :: nat
  raw_artifacts_dir :: string
  raw_output_dir :: "string option"
  raw_env :: "env option"
  raw_skip_setup :: bool
  raw_pre_commands :: "PreCommand list option"

datatype language = typescript | javascript

record raw_tests =
  raw_language :: language
  raw_test_dir :: "string option"
  raw_pattern :: "string option"
  raw_default_output_path :: "string option"
  raw_prefer :: "string list"
  raw_avoid :: "string list"

record raw_config =
  raw_version :: nat
  raw_setup_section :: raw_setup
  raw_run_section :: raw_run
  raw_tests_section :: raw_tests

record RunConfig =
  rc_script :: "string option"
  rc_configPath :: "string option"
  rc_timeoutSeconds :: nat
  rc_artifactsDir :: string
  rc_runner :: "RunnerType option"
  rc_args :: "string list option"
  rc_env :: "env option"
  rc_preCommands :: "PreCommand list option"
  rc_skipSetup :: "bool option"
  rc_outputDir :: "string option"

record TestsConfig =
  tc_testDir :: "string option"
  tc_pattern :: "string option"
  tc_defaultOutputPath :: "string option"
  tc_selectorPolicy :: "(string list \<times> string list) option"

record KitweConfig =
  kc_version :: nat
  kc_run :: RunConfig
  kc_tests :: TestsConfig

text \<open>YAML data as \<^verbatim>\<open>yaml.load\<close> returns it: null, booleans, numbers (the integers),
  strings, sequences and mappings (with distinct keys, in the order written).\<close>

datatype yaml = YNull | YBool bool | YNum int | YStr string | YSeq "yaml list"
  | YMap "(string \<times> yaml) list"

text \<open>A kitwe.yaml document whose \<open>version\<close>, \<open>project\<close>, \<open>setup\<close>, \<open>run\<close> and
  \<open>auth\<close> sections pass the schema: the data the schema yields for the sections the core
  reads, and the \<open>tests\<close> section as it is written in the file (\<open>None\<close> when the key
  is absent), which the schema has yet to validate.\<close>

record kitwe_doc =
  doc_version :: nat
  doc_setup :: raw_setup
  doc_run :: raw_run
  doc_tests :: "yaml option"

text \<open>What reading and parsing the file at a path gives: the read fails, the YAML does
  not parse, the document is empty, the root is a scalar, the root is rejected by the
  schema in a section other than \<open>tests\<close>, or the root is a document as above.\<close>

datatype yaml_file =
    YamlUnreadable
  | YamlSyntaxError
  | YamlEmpty
  | YamlScalar
  | YamlSchemaInvalid
  | YamlMapping kitwe_doc

datatype config_exn = ConfigLoadError string | ConfigValidationError string

datatype stat = IsFile nat | IsDirectory | IsOther

text \<open>What a spawned process does, as \<^verbatim>\<open>runCommand\<close> observes it: the call to
  \<^verbatim>\<open>spawn\<close> throws; the child emits \<^verbatim>\<open>error\<close>; or the child emits
  \<^verbatim>\<open>close\<close> with an exit code (\<open>None\<close> for JavaScript's \<^verbatim>\<open>null\<close>, as when a
  signal ended it), after the timeout timer has fired or not.\<close>

record proc_output =
  out_stdout :: string
  out_stderr :: string
  out_durationMs :: nat

datatype proc_outcome =
    SpawnThrows string
  | ErrorEvent string proc_output
  | CloseEvent "int option" bool proc_output

text \<open>The host: everything the core reads from outside itself. The file system
  (\<^verbatim>\<open>existsSync\<close>, \<^verbatim>\<open>readdirSync\<close>, \<^verbatim>\<open>statSync\<close>, the content of a YAML file;
  whether \<^verbatim>\<open>mkdirSync\<close> or \<^verbatim>\<open>writeFileSync\<close> throws at a path, and with which
  message), the \<^verbatim>\<open>path\<close> module (with the directories that lead to a path, the path
  itself included: what a recursive \<^verbatim>\<open>mkdirSync\<close> creates), the inherited environment
  and working directory, the clock, and the behaviour of the n-th process spawned during a
  run.\<close>

record host =
  existsSync :: "string \<Rightarrow> bool"
  mkdir_throws :: "string \<Rightarrow> string option"
  write_throws :: "string \<Rightarrow> string option"
  path_resolve :: "string \<Rightarrow> string \<Rightarrow> string"
  path_join :: "string \<Rightarrow> string \<Rightarrow> string"
  path_ancestors :: "string \<Rightarrow> string list"
  yaml_at :: "string \<Rightarrow> yaml_file"
  readdirSync :: "string \<Rightarrow> string list option"
  statSync :: "string \<Rightarrow> stat option"
  process_env :: env
  process_cwd :: string
  elapsed_ms :: nat
  proc :: "nat \<Rightarrow> proc_outcome"

section \<open>Configuration loading (core/config.ts)\<close>

definition convertToTypescript :: "raw_config \<Rightarrow> KitweConfig" where
  "convertToTypescript raw =
     \<lparr> kc_version = raw_version raw,
       kc_run = \<lparr> rc_script = raw_script (raw_run_section raw),
                  rc_configPath = raw_config_path (raw_run_section raw),
                  rc_timeoutSeconds = raw_timeout_seconds (raw_run_section raw),
                  rc_artifactsDir = raw_artifacts_dir (raw_run_section raw),
                  rc_runner = raw_runner (raw_run_section raw),
                  rc_args = Some (raw_args (raw_run_section raw)),
                  rc_env = raw_env (raw_run_section raw),
                  rc_preCommands = raw_pre_commands (raw_run_section raw),
                  rc_skipSetup = Some (raw_skip_setup (raw_run_section raw)),
                  rc_outputDir = raw_output_dir (raw_run_section raw) \<rparr>,
       kc_tests = \<lparr> tc_testDir = raw_test_dir (raw_tests_section raw),
                    tc_pattern = raw_pattern (raw_tests_section raw),
                    tc_defaultOutputPath = raw_default_output_path (raw_tests_section raw),
                    tc_selectorPolicy =
                      Some (raw_prefer (raw_tests_section raw), raw_avoid (raw_tests_section raw)) \<rparr> \<rparr>"

text \<open>The schema of the \<open>tests\<close> section (\<^verbatim>\<open>TestsConfigSchema\<close>, with
  \<^verbatim>\<open>SelectorPolicySchema\<close>), as \<^verbatim>\<open>safeParse\<close> applies it; \<open>None\<close> is a failed
  validation. An optional string accepts an absent key or a string; a default applies to
  an absent key only; an object accepts a mapping and ignores the keys it does not name.\<close>

fun z_strings :: "yaml list \<Rightarrow> string list option" where
  "z_strings [] = Some []"
| "z_strings (YStr x # ys) = map_option ((#) x) (z_strings ys)"
| "z_strings (y # ys) = None"

definition z_string_optional :: "yaml option \<Rightarrow> string option option" where
  "z_string_optional v =
     (case v of None \<Rightarrow> Some None | Some (YStr x) \<Rightarrow> Some (Some x) | Some y \<Rightarrow> None)"

definition z_string_array :: "string list \<Rightarrow> yaml option \<Rightarrow> string list option" where
  "z_string_array dflt v =
     (case v of None \<Rightarrow> Some dflt | Some (YSeq ys) \<Rightarrow> z_strings ys | Some y \<Rightarrow> None)"

definition z_language :: "yaml option \<Rightarrow> language option" where
  "z_language v =
     (case v of
        None \<Rightarrow> Some typescript
      | Some (YStr x) \<Rightarrow> if x = ''typescript'' then Some typescript
                        else if x = ''javascript'' then Some javascript else None
      | Some y \<Rightarrow> None)"

definition SelectorPolicySchema :: "yaml \<Rightarrow> (string list \<times> string list) option" where
  "SelectorPolicySchema v =
     (case v of
        YMap kv \<Rightarrow>
          Option.bind (z_string_array [''data-testid'', ''role'', ''aria-label''] (map_of kv ''prefer''))
            (\<lambda>p. Option.bind (z_string_array [''class'', ''xpath''] (map_of kv ''avoid''))
              (\<lambda>a. Some (p, a)))
      | y \<Rightarrow> None)"

definition TestsConfigSchema :: "yaml \<Rightarrow> raw_tests option" where
  "TestsConfigSchema v =
     (case v of
        YMap kv \<Rightarrow>
          Option.bind (z_language (map_of kv ''language''))
            (\<lambda>l. Option.bind (z_string_optional (map_of kv ''test_dir''))
              (\<lambda>d. Option.bind (z_string_optional (map_of kv ''pattern''))
                (\<lambda>p. Option.bind (z_string_optional (map_of kv ''default_output_path''))
                  (\<lambda>out. Option.bind
                     (case map_of kv ''selector_policy'' of
                        None \<Rightarrow> SelectorPolicySchema (YMap [])
                      | Some sp \<Rightarrow> SelectorPolicySchema sp)
                    (\<lambda>sel. Some \<lparr> raw_language = l, raw_test_dir = d, raw_pattern = p,
                                    raw_default_output_path = out,
                                    raw_prefer = fst sel, raw_avoid = snd sel \<rparr>)))))
      | y \<Rightarrow> None)"

text \<open>\<^verbatim>\<open>KitweConfigSchema.safeParse\<close> on a document: what is left to validate is the
  \<open>tests\<close> section, an empty mapping when the key is absent.\<close>

definition KitweConfigSchema :: "kitwe_doc \<Rightarrow> raw_config option" where
  "KitweConfigSchema d =
     map_option
       (\<lambda>t. \<lparr> raw_version = doc_version d, raw_setup_section = doc_setup d,
               raw_run_section = doc_run d, raw_tests_section = t \<rparr>)
       (case doc_tests d of
          None \<Rightarrow> TestsConfigSchema (YMap [])
        | Some t \<Rightarrow> TestsConfigSchema t)"

definition getConfigPath :: "host \<Rightarrow> string \<Rightarrow> string" where
  "getConfigPath h root = path_resolve h root ''kitwe.yaml''"

definition loadProjectConfig :: "host \<Rightarrow> string \<Rightarrow> config_exn + KitweConfig option" where
  "loadProjectConfig h root =
     (let configPath = getConfigPath h root in
      if \<not> existsSync h configPath then Inr None
      else case yaml_at h configPath of
             YamlUnreadable \<Rightarrow> Inl (ConfigLoadError configPath)
           | YamlSyntaxError \<Rightarrow> Inl (ConfigLoadError configPath)
           | YamlEmpty \<Rightarrow> Inl (ConfigLoadError configPath)
           | YamlScalar \<Rightarrow> Inl (ConfigLoadError configPath)
           | YamlSchemaInvalid \<Rightarrow> Inl (ConfigValidationError configPath)
           | YamlMapping d \<Rightarrow>
               (case KitweConfigSchema d of
                  None \<Rightarrow> Inl (ConfigValidationError configPath)
                | Some raw \<Rightarrow> Inr (Some (convertToTypescript raw))))"

definition loadRunConfig :: "host \<Rightarrow> string \<Rightarrow> config_exn + RunConfig option" where
  "loadRunConfig h root =
     (case loadProjectConfig h root of
        Inl e \<Rightarrow> Inl e
      | Inr None \<Rightarrow> Inr None
      | Inr (Some config) \<Rightarrow> Inr (Some (kc_run config)))"

definition getRunPreCommands :: "host \<Rightarrow> string \<Rightarrow> PreCommand list" where
  "getRunPreCommands h root =
     (let configPath = getConfigPath h root in
      if \<not> existsSync h configPath then []
      else case yaml_at h configPath of
             YamlMapping d \<Rightarrow>
               (case KitweConfigSchema d of
                  None \<Rightarrow> []
                | Some raw \<Rightarrow>
                    (if \<not> raw_skip_setup (raw_run_section raw)
                     then (case setup_pre_commands (raw_setup_section raw) of
                             None \<Rightarrow> [] | Some cs \<Rightarrow> cs)
                     else [])
                    @ (case raw_pre_commands (raw_run_section raw) of
                         None \<Rightarrow> [] | Some cs \<Rightarrow> cs))
           | _ \<Rightarrow> [])"

section \<open>Resolver (runner/resolver.ts)\<close>

datatype mode = cli_script | cli_config | yaml_script | yaml_config

record ResolvedCommand =
  argv :: "string list"
  cwd :: string
  mode :: mode
  env :: "env option"
  preCommands :: "PreCommand list option"

record ResolvedError =
  errorType :: string
  message :: string

datatype ResolveResult = IsCommand ResolvedCommand | IsError ResolvedError

definition detectPackageManager :: "host \<Rightarrow> string \<Rightarrow> RunnerType" where
  "detectPackageManager h root =
     (if existsSync h (path_resolve h root ''pnpm-lock.yaml'') then pnpm
      else if existsSync h (path_resolve h root ''yarn.lock'') then yarn
      else npm)"

definition resolveCwd :: "host \<Rightarrow> string option \<Rightarrow> string \<Rightarrow> string" where
  "resolveCwd h c root =
     (if \<not> truthy c then root
      else case c of
             None \<Rightarrow> root
           | Some d \<Rightarrow> if startsWith d ''/'' then d else path_resolve h root d)"

definition extractPreCommands :: "host \<Rightarrow> RunSpec \<Rightarrow> PreCommand list option" where
  "extractPreCommands h spec =
     (if skipSetup spec = Some True then None
      else let configCommands = getRunPreCommands h (projectRoot spec) in
           if length configCommands = 0 then None
           else Some (map (\<lambda>pc. \<lparr> pc_argv = pc_argv pc,
                                   pc_env = pc_env pc,
                                   pc_cwd = Some (resolveCwd h (pc_cwd pc) (projectRoot spec)) \<rparr>)
                          configCommands))"

text \<open>\<^verbatim>\<open>spec.args && spec.args.length > 0\<close>, and the arguments then pushed.\<close>

definition given_args :: "string list option \<Rightarrow> string list" where
  "given_args a = (case a of None \<Rightarrow> [] | Some xs \<Rightarrow> xs)"

definition resolveFromScript :: "host \<Rightarrow> RunSpec \<Rightarrow> ResolvedCommand" where
  "resolveFromScript h spec =
     (let runner = (case spec_runner spec of
                      Some r \<Rightarrow> r
                    | None \<Rightarrow> detectPackageManager h (projectRoot spec));
          script = (case spec_script spec of Some s \<Rightarrow> s | None \<Rightarrow> []);
          base = [runner_name runner, ''run'', script];
          args = given_args (spec_args spec)
      in \<lparr> argv = (if length args > 0
                   then base @ (if runner = npm then [''--''] else []) @ args
                   else base),
           cwd = projectRoot spec,
           mode = cli_script,
           env = None,
           preCommands = extractPreCommands h spec \<rparr>)"

definition resolveFromConfig :: "host \<Rightarrow> RunSpec \<Rightarrow> ResolveResult" where
  "resolveFromConfig h spec =
     (let configPath = (case spec_configPath spec of Some p \<Rightarrow> p | None \<Rightarrow> []);
          configAbs = path_resolve h (projectRoot spec) configPath
      in if \<not> existsSync h configAbs
         then IsError \<lparr> errorType = ''config_not_found'',
                        message = ''Playwright config not found: '' @ configAbs \<rparr>
         else IsCommand
                \<lparr> argv = [''npx'', ''playwright'', ''test'', ''--config='' @ configPath]
                          @ given_args (spec_args spec),
                  cwd = projectRoot spec,
                  mode = cli_config,
                  env = None,
                  preCommands = extractPreCommands h spec \<rparr>)"

definition resolveFromRunConfig :: "host \<Rightarrow> RunConfig \<Rightarrow> RunSpec \<Rightarrow> ResolveResult option" where
  "resolveFromRunConfig h runConfig spec =
     (if \<not> (truthy (rc_script runConfig) \<or> truthy (rc_configPath runConfig)) then None
      else
        let pre = extractPreCommands h spec;
            allArgs = given_args (rc_args runConfig) @ given_args (spec_args spec)
        in if truthy (rc_script runConfig)
           then
             (let runner = (case rc_runner runConfig of
                              Some r \<Rightarrow> r
                            | None \<Rightarrow> detectPackageManager h (projectRoot spec));
                  script = (case rc_script runConfig of Some s \<Rightarrow> s | None \<Rightarrow> []);
                  base = [runner_name runner, ''run'', script]
              in Some (IsCommand
                   \<lparr> argv = (if length allArgs > 0
                              then base @ (if runner = npm then [''--''] else []) @ allArgs
                              else base),
                     cwd = projectRoot spec,
                     mode = yaml_script,
                     env = rc_env runConfig,
                     preCommands = pre \<rparr>))
           else if truthy (rc_configPath runConfig)
           then
             (let configPath = (case rc_configPath runConfig of Some p \<Rightarrow> p | None \<Rightarrow> []);
                  configAbs = path_resolve h (projectRoot spec) configPath
              in if \<not> existsSync h configAbs
                 then Some (IsError
                        \<lparr> errorType = ''config_not_found'',
                          message = ''Playwright config from kitwe.yaml not found: '' @ configAbs \<rparr>)
                 else Some (IsCommand
                        \<lparr> argv = [''npx'', ''playwright'', ''test'', ''--config='' @ configPath]
                                  @ allArgs,
                          cwd = projectRoot spec,
                          mode = yaml_config,
                          env = rc_env runConfig,
                          preCommands = pre \<rparr>))
           else None)"

definition no_entrypoint_message :: string where
  "no_entrypoint_message =
     ''Run entrypoint not configured.'' @ nl @ nl
     @ ''An explicit entrypoint is required. Set one of:'' @ nl
     @ ''  1. run.script in kitwe.yaml (e.g., '' @ apos @ ''test:e2e'' @ apos @ '')'' @ nl
     @ ''  2. run.config_path in kitwe.yaml (e.g., '' @ apos @ ''playwright.config.ts'' @ apos @ '')'' @ nl
     @ ''  3. CLI flag: --script <name> or --config <path>'' @ nl @ nl
     @ ''Example kitwe.yaml:'' @ nl
     @ ''  version: 1'' @ nl
     @ ''  run:'' @ nl
     @ ''    script: test:e2e'' @ nl @ nl
     @ ''Or:'' @ nl
     @ ''  version: 1'' @ nl
     @ ''  run:'' @ nl
     @ ''    config_path: playwright.config.ts''"

definition no_entrypoint :: ResolveResult where
  "no_entrypoint = IsError \<lparr> errorType = ''no_entrypoint'', message = no_entrypoint_message \<rparr>"

definition resolveRunSpec :: "host \<Rightarrow> RunSpec \<Rightarrow> config_exn + ResolveResult" where
  "resolveRunSpec h spec =
     (if \<not> existsSync h (projectRoot spec)
      then Inr (IsError \<lparr> errorType = ''project_not_found'',
                           message = ''Project root does not exist: '' @ projectRoot spec \<rparr>)
      else case loadRunConfig h (projectRoot spec) of
             Inl e \<Rightarrow> Inl e
           | Inr runConfig \<Rightarrow>
               if truthy (spec_script spec) then Inr (IsCommand (resolveFromScript h spec))
               else if truthy (spec_configPath spec) then Inr (resolveFromConfig h spec)
               else (case runConfig of
                       None \<Rightarrow> Inr no_entrypoint
                     | Some rc \<Rightarrow>
                         (case resolveFromRunConfig h rc spec of
                            Some result \<Rightarrow> Inr result
                          | None \<Rightarrow> Inr no_entrypoint)))"

section \<open>Executor (runner/executor.ts)\<close>

text \<open>
  The executor's effects are made explicit in a \<open>world\<close> that every operation takes and
  returns: the calls to \<^verbatim>\<open>spawn\<close> in the order they were made, the paths handed to
  \<^verbatim>\<open>writeFileSync\<close>, and the notifications given to the progress callback (the
  sequence a supplied callback observes). The n-th call to \<^verbatim>\<open>spawn\<close> of a run
  behaves as \<open>proc h n\<close> says. A \<^verbatim>\<open>mkdirSync\<close> or a \<^verbatim>\<open>writeFileSync\<close> that
  \<open>runValidate\<close> calls itself throws where the host says so. The per-step log that
  \<open>runCommand\<close> writes from the handlers of the child's events is taken to be written
  (a throw there is an uncaught exception of the Node process, not an outcome of
  \<open>runValidate\<close>); the content of the log files is not modelled. A successful
  \<^verbatim>\<open>mkdirSync\<close> changes what \<^verbatim>\<open>existsSync\<close> answers; \<^verbatim>\<open>readdirSync\<close> and
  \<^verbatim>\<open>statSync\<close> are read only when the artifacts are collected and describe the file
  system at that time.
\<close>

datatype RunStatus = passed | failed | error | timeout

datatype artifact_type = screenshot | trace | video | report | other

record ArtifactInfo =
  art_type :: artifact_type
  art_path :: string
  art_name :: string
  art_size :: nat

record RunResult =
  rr_status :: RunStatus
  rr_exitCode :: int
  rr_stdout :: string
  rr_stderr :: string
  rr_durationMs :: nat
  rr_artifacts :: "ArtifactInfo list"
  rr_command :: "string list option"
  rr_error :: "string option"

record CommandOptions =
  opt_cwd :: string
  opt_env :: env
  opt_timeoutMs :: nat
  opt_logPath :: "string option"

record CommandResult =
  cr_exitCode :: "int option"
  cr_stdout :: string
  cr_stderr :: string
  cr_timedOut :: bool
  cr_durationMs :: nat

record spawn_call =
  sp_shell :: string
  sp_args :: "string list"
  sp_cwd :: string
  sp_env :: env

record world =
  spawned :: "spawn_call list"
  written :: "string list"
  progress :: "(string \<times> string) list"

definition onProgress :: "string \<Rightarrow> string \<Rightarrow> world \<Rightarrow> world" where
  "onProgress step detail w = w\<lparr>progress := progress w @ [(step, detail)]\<rparr>"

definition PRE_COMMAND_TIMEOUT_MS :: nat where
  "PRE_COMMAND_TIMEOUT_MS = 5 * 60 * 1000"

subsection \<open>runCommand\<close>

definition write_log :: "string option \<Rightarrow> world \<Rightarrow> world" where
  "write_log logPath w =
     (if truthy logPath
      then (case logPath of None \<Rightarrow> w | Some p \<Rightarrow> w\<lparr>written := written w @ [p]\<rparr>)
      else w)"

definition runCommand ::
  "host \<Rightarrow> string list \<Rightarrow> CommandOptions \<Rightarrow> world \<Rightarrow> (string + CommandResult) \<times> world" where
  "runCommand h cmd_argv options w =
     (let userShell = (if truthy (opt_env options ''SHELL'')
                       then (case opt_env options ''SHELL'' of Some s \<Rightarrow> s | None \<Rightarrow> ''/bin/zsh'')
                       else ''/bin/zsh'');
          fullCommand = join_with '' '' cmd_argv;
          n = length (spawned w);
          w1 = w\<lparr>spawned := spawned w @
                 [\<lparr> sp_shell = userShell, sp_args = [''-l'', ''-c'', fullCommand],
                    sp_cwd = opt_cwd options, sp_env = opt_env options \<rparr>]\<rparr>
      in case proc h n of
           SpawnThrows msg \<Rightarrow> (Inl msg, w1)
         | ErrorEvent msg out \<Rightarrow>
             (Inr \<lparr> cr_exitCode = None,
                    cr_stdout = out_stdout out,
                    cr_stderr = out_stderr out @ nl @ msg,
                    cr_timedOut = False,
                    cr_durationMs = out_durationMs out \<rparr>,
              write_log (opt_logPath options) w1)
         | CloseEvent code timerFired out \<Rightarrow>
             (Inr \<lparr> cr_exitCode = code,
                    cr_stdout = out_stdout out,
                    cr_stderr = out_stderr out,
                    cr_timedOut = timerFired,
                    cr_durationMs = out_durationMs out \<rparr>,
              write_log (opt_logPath options) w1))"

subsection \<open>runPreCommands\<close>

record pre_result =
  pre_success :: bool
  pre_error :: "string option"
  pre_logPath :: "string option"

definition show_exit_code :: "int option \<Rightarrow> string" where
  "show_exit_code c = (case c of None \<Rightarrow> ''null'' | Some i \<Rightarrow> show_int i)"

definition pre_log_path :: "host \<Rightarrow> string \<Rightarrow> nat \<Rightarrow> string" where
  "pre_log_path h logsDir i = path_join h logsDir (''pre_command_'' @ show_nat i @ ''.log'')"

definition pre_failed_message :: "nat \<Rightarrow> int option \<Rightarrow> string \<Rightarrow> string \<Rightarrow> string" where
  "pre_failed_message i code cmdStr logPath =
     ''Pre-command '' @ show_nat i @ '' failed with exit code '' @ show_exit_code code
     @ '': '' @ cmdStr @ nl @ ''See log: '' @ logPath"

definition pre_error_message :: "nat \<Rightarrow> string \<Rightarrow> string" where
  "pre_error_message i errorMsg = ''Pre-command '' @ show_nat i @ '' error: '' @ errorMsg"

text \<open>The loop of \<^verbatim>\<open>runPreCommands\<close>, from index \<open>i\<close> on: \<open>pcs\<close> are the
  commands not yet run and \<open>count\<close> is \<^verbatim>\<open>preCommands.length\<close>.\<close>

fun runPreCommands_from ::
  "host \<Rightarrow> PreCommand list \<Rightarrow> nat \<Rightarrow> nat \<Rightarrow> env \<Rightarrow> string \<Rightarrow> world \<Rightarrow> pre_result \<times> world" where
  "runPreCommands_from h [] i count baseEnv logsDir w =
     (\<lparr> pre_success = True, pre_error = None, pre_logPath = None \<rparr>, w)"
| "runPreCommands_from h (pc # rest) i count baseEnv logsDir w =
     (let logPath = pre_log_path h logsDir i;
          cmdStr = join_with '' '' (pc_argv pc);
          w1 = onProgress ''pre_command''
                 (''['' @ show_nat (i + 1) @ ''/'' @ show_nat count @ ''] '' @ cmdStr) w;
          cmdEnv = (case pc_env pc of None \<Rightarrow> baseEnv | Some e \<Rightarrow> baseEnv ++ e)
      in case runCommand h (pc_argv pc)
                \<lparr> opt_cwd = (case pc_cwd pc of Some c \<Rightarrow> c | None \<Rightarrow> process_cwd h),
                  opt_env = cmdEnv,
                  opt_timeoutMs = PRE_COMMAND_TIMEOUT_MS,
                  opt_logPath = Some logPath \<rparr> w1 of
           (Inl errorMsg, w2) \<Rightarrow>
             (\<lparr> pre_success = False,
                pre_error = Some (pre_error_message i errorMsg),
                pre_logPath = Some logPath \<rparr>, w2)
         | (Inr result, w2) \<Rightarrow>
             if cr_exitCode result \<noteq> Some 0
             then (\<lparr> pre_success = False,
                      pre_error = Some (pre_failed_message i (cr_exitCode result) cmdStr logPath),
                      pre_logPath = Some logPath \<rparr>, w2)
             else runPreCommands_from h rest (i + 1) count baseEnv logsDir w2)"

definition runPreCommands ::
  "host \<Rightarrow> PreCommand list \<Rightarrow> env \<Rightarrow> string \<Rightarrow> world \<Rightarrow> pre_result \<times> world" where
  "runPreCommands h pcs baseEnv logsDir w =
     runPreCommands_from h pcs 0 (length pcs) baseEnv logsDir w"

subsection \<open>Artifact collection\<close>

definition getArtifactType :: "string \<Rightarrow> artifact_type option" where
  "getArtifactType filename =
     (let lower = toLowerCase filename in
      if endsWith lower ''.png'' \<or> endsWith lower ''.jpg'' \<or> endsWith lower ''.jpeg''
      then Some screenshot
      else if endsWith lower ''.zip'' \<and> str_includes lower ''trace'' then Some trace
      else if endsWith lower ''.webm'' \<or> endsWith lower ''.mp4'' then Some video
      else if endsWith lower ''.html'' \<and> str_includes lower ''report'' then Some report
      else if endsWith lower ''.json'' \<and> str_includes lower ''report'' then Some report
      else None)"

text \<open>\<^verbatim>\<open>collectArtifactsFromDir\<close> and its loop over the directory's entries. A
  \<^verbatim>\<open>readdirSync\<close> or \<^verbatim>\<open>statSync\<close> that throws is caught by the \<^verbatim>\<open>try\<close> around
  the entry (or, for a top-level directory, by the one in \<^verbatim>\<open>collectArtifacts\<close>) and
  leaves the list as it was.\<close>

function collectArtifactsFromDir ::
    "host \<Rightarrow> string \<Rightarrow> ArtifactInfo list \<Rightarrow> nat \<Rightarrow> ArtifactInfo list"
  and collect_entries ::
    "host \<Rightarrow> string \<Rightarrow> string list \<Rightarrow> ArtifactInfo list \<Rightarrow> nat \<Rightarrow> ArtifactInfo list" where
  "collectArtifactsFromDir h dir artifacts depth =
     (if depth > 3 then artifacts
      else case readdirSync h dir of
             None \<Rightarrow> artifacts
           | Some entries \<Rightarrow> collect_entries h dir entries artifacts depth)"
| "collect_entries h dir [] artifacts depth = artifacts"
| "collect_entries h dir (entry # rest) artifacts depth =
     (let fullPath = path_join h dir entry in
      collect_entries h dir rest
        (case statSync h fullPath of
           None \<Rightarrow> artifacts
         | Some IsDirectory \<Rightarrow> collectArtifactsFromDir h fullPath artifacts (depth + 1)
         | Some (IsFile sz) \<Rightarrow>
             (case getArtifactType entry of
                Some t \<Rightarrow> artifacts @ [\<lparr> art_type = t, art_path = fullPath,
                                          art_name = entry, art_size = sz \<rparr>]
              | None \<Rightarrow> artifacts)
         | Some IsOther \<Rightarrow> artifacts)
        depth)"
  by pat_completeness auto
termination
  by (relation "inv_image (less_than <*lex*> less_than)
        (\<lambda>x. case x of
           Inl (h, dir, artifacts, depth) \<Rightarrow> (2 * (5 - depth), 0)
         | Inr (h, dir, entries, artifacts, depth) \<Rightarrow> (2 * (5 - depth) - 1, length entries))")
     auto

declare collectArtifactsFromDir.simps [simp del]

definition collectArtifacts :: "host \<Rightarrow> string \<Rightarrow> string \<Rightarrow> ArtifactInfo list" where
  "collectArtifacts h root outputDir =
     foldl (\<lambda>artifacts dir.
              if \<not> existsSync h dir then artifacts
              else collectArtifactsFromDir h dir artifacts 0)
       []
       [path_join h root ''test-results'', path_join h root ''playwright-report'', outputDir]"

subsection \<open>prepareCommandWithReporter\<close>

text \<open>The list \<^verbatim>\<open>flagsToInject\<close> that \<^verbatim>\<open>prepareCommandWithReporter\<close> builds from
  the joined argv.\<close>

definition flagsToInject :: "string list \<Rightarrow> string list" where
  "flagsToInject a =
     (let argvStr = join_with '' '' a in
      (if \<not> str_includes argvStr ''--reporter'' then [''--reporter=list''] else [])
      @ (if \<not> str_includes argvStr ''--trace'' then [''--trace=retain-on-failure''] else []))"

definition prepareCommandWithReporter :: "ResolvedCommand \<Rightarrow> string list" where
  "prepareCommandWithReporter resolved =
     (let flags = flagsToInject (argv resolved)
      in if length flags = 0 then argv resolved
         else if mode resolved \<in> set [yaml_script, cli_script]
         then (if ''--'' \<notin> set (argv resolved) then argv resolved @ [''--''] else argv resolved)
              @ flags
         else if mode resolved \<in> set [cli_config, yaml_config]
         then argv resolved @ flags
         else argv resolved)"

subsection \<open>runValidate\<close>

definition createErrorResult :: "host \<Rightarrow> string \<Rightarrow> string \<Rightarrow> RunResult" where
  "createErrorResult h errType errorMessage =
     \<lparr> rr_status = error,
       rr_exitCode = - 1,
       rr_stdout = [],
       rr_stderr = [],
       rr_durationMs = elapsed_ms h,
       rr_artifacts = [],
       rr_command = None,
       rr_error = Some (''['' @ errType @ ''] '' @ errorMessage) \<rparr>"

text \<open>Lines 328 to 343 of \<^verbatim>\<open>runValidate\<close>: the environment of the run.\<close>

definition buildRunEnv :: "env \<Rightarrow> env option \<Rightarrow> env option \<Rightarrow> env" where
  "buildRunEnv inherited specEnv resolvedEnv =
     (let runEnv = inherited ++ [''CI'' \<mapsto> ''true'', ''PLAYWRIGHT_HTML_OPEN'' \<mapsto> ''never''];
          runEnv1 = (case specEnv of None \<Rightarrow> runEnv | Some e \<Rightarrow> runEnv ++ e)
      in case resolvedEnv of None \<Rightarrow> runEnv1 | Some e \<Rightarrow> runEnv1 ++ e)"

text \<open>Lines 405 to 441 of \<^verbatim>\<open>runValidate\<close>: the status and the result record.\<close>

definition deriveStatus :: "CommandResult \<Rightarrow> RunStatus" where
  "deriveStatus result =
     (if cr_timedOut result then timeout
      else if cr_exitCode result = None then error
      else if cr_exitCode result = Some 0 then passed
      else failed)"

definition status_errors :: "RunSpec \<Rightarrow> CommandResult \<Rightarrow> string list" where
  "status_errors spec result =
     (if cr_timedOut result
      then [''Execution exceeded '' @ show_nat (timeoutSeconds spec) @ ''s timeout'']
      else if cr_exitCode result = None then [''Process terminated abnormally'']
      else [])"

definition status_name :: "RunStatus \<Rightarrow> string" where
  "status_name s = (case s of passed \<Rightarrow> ''passed'' | failed \<Rightarrow> ''failed''
                    | error \<Rightarrow> ''error'' | timeout \<Rightarrow> ''timeout'')"

definition assembleResult ::
  "RunSpec \<Rightarrow> CommandResult \<Rightarrow> ArtifactInfo list \<Rightarrow> string list \<Rightarrow> RunResult" where
  "assembleResult spec result artifacts finalArgv =
     \<lparr> rr_status = deriveStatus result,
       rr_exitCode = (case cr_exitCode result of None \<Rightarrow> - 1 | Some c \<Rightarrow> c),
       rr_stdout = cr_stdout result,
       rr_stderr = cr_stderr result,
       rr_durationMs = cr_durationMs result,
       rr_artifacts = artifacts,
       rr_command = Some finalArgv,
       rr_error = (if length (status_errors spec result) > 0
                   then Some (join_with nl (status_errors spec result)) else None) \<rparr>"

text \<open>\<^verbatim>\<open>writeFileSync\<close> as \<open>runValidate\<close> calls it: it throws, or the path is
  written.\<close>

definition writeFileSync :: "host \<Rightarrow> string \<Rightarrow> world \<Rightarrow> string + world" where
  "writeFileSync h p w =
     (case write_throws h p of
        Some errorMsg \<Rightarrow> Inl errorMsg
      | None \<Rightarrow> Inr (w\<lparr>written := written w @ [p]\<rparr>))"

text \<open>Lines 368 to 441 of \<^verbatim>\<open>runValidate\<close>: the main command, from the injection of the
  reporter flags to the result. The two log writes are inside the \<^verbatim>\<open>try\<close>, so a write
  that throws ends the run with the \<open>execution_error\<close> result.\<close>

definition runMain ::
  "host \<Rightarrow> RunSpec \<Rightarrow> ResolvedCommand \<Rightarrow> env \<Rightarrow> string \<Rightarrow> world \<Rightarrow> RunResult \<times> world" where
  "runMain h spec resolved runEnv logsDir w =
     (let finalArgv = prepareCommandWithReporter resolved;
          cmdDisplay = join_with '' '' (take 3 finalArgv)
                       @ (if length finalArgv > 3 then ''...'' else []);
          w1 = onProgress ''execute'' (''Running tests: '' @ cmdDisplay) w;
          timeoutMs = timeoutSeconds spec * 1000;
          stdoutPath = path_join h logsDir ''stdout.log'';
          stderrPath = path_join h logsDir ''stderr.log''
      in case runCommand h finalArgv
                \<lparr> opt_cwd = cwd resolved, opt_env = runEnv,
                  opt_timeoutMs = timeoutMs, opt_logPath = None \<rparr> w1 of
           (Inl errorMsg, w2) \<Rightarrow> (createErrorResult h ''execution_error'' errorMsg, w2)
         | (Inr result, w2) \<Rightarrow>
             (case writeFileSync h stdoutPath w2 of
                Inl errorMsg \<Rightarrow> (createErrorResult h ''execution_error'' errorMsg, w2)
              | Inr w2' \<Rightarrow>
                 (case writeFileSync h stderrPath w2' of
                    Inl errorMsg \<Rightarrow> (createErrorResult h ''execution_error'' errorMsg, w2')
                  | Inr w3 \<Rightarrow>
                     (let w4 = onProgress ''collect'' ''Collecting artifacts...'' w3;
                          artifacts = collectArtifacts h (projectRoot spec)
                                        (if truthy (spec_outputDir spec)
                                         then (case spec_outputDir spec of
                                                 Some d \<Rightarrow> d | None \<Rightarrow> ''test-results'')
                                         else ''test-results'');
                          w5 = onProgress ''complete''
                                 (''Tests '' @ status_name (deriveStatus result)) w4
                      in (assembleResult spec result artifacts finalArgv, w5)))))"

text \<open>Lines 317 to 441 of \<^verbatim>\<open>runValidate\<close>: from the notification of the resolve phase
  on, on the host as the two \<^verbatim>\<open>mkdirSync\<close> calls have left it.\<close>

definition runFromResolve ::
  "host \<Rightarrow> RunSpec \<Rightarrow> world \<Rightarrow> (config_exn + RunResult) \<times> world" where
  "runFromResolve h spec w =
     (let artifactsAbs = path_resolve h (projectRoot spec) (artifactsDir spec);
          logsDir = path_join h artifactsAbs ''logs'';
          w0 = onProgress ''resolve'' ''Resolving test command...'' w
      in case resolveRunSpec h spec of
           Inl e \<Rightarrow> (Inl e, w0)
         | Inr (IsError e) \<Rightarrow> (Inr (createErrorResult h (errorType e) (message e)), w0)
         | Inr (IsCommand resolved) \<Rightarrow>
             (let runEnv = buildRunEnv (process_env h) (spec_env spec) (env resolved) in
              case preCommands resolved of
                None \<Rightarrow> (case runMain h spec resolved runEnv logsDir w0 of (r, w') \<Rightarrow> (Inr r, w'))
              | Some pcs \<Rightarrow>
                  if length pcs > 0
                  then
                    (case runPreCommands h pcs runEnv logsDir
                            (onProgress ''setup''
                               (''Running '' @ show_nat (length pcs) @ '' setup command(s)...'') w0) of
                       (preResult, w1) \<Rightarrow>
                         if \<not> pre_success preResult
                         then (Inr (createErrorResult h ''pre_command_failed''
                                      (if truthy (pre_error preResult)
                                       then (case pre_error preResult of
                                               Some m \<Rightarrow> m | None \<Rightarrow> ''Pre-command failed'')
                                       else ''Pre-command failed'')), w1)
                         else (case runMain h spec resolved runEnv logsDir w1 of
                                 (r, w') \<Rightarrow> (Inr r, w')))
                  else (case runMain h spec resolved runEnv logsDir w0 of (r, w') \<Rightarrow> (Inr r, w'))))"

text \<open>A recursive \<^verbatim>\<open>mkdirSync\<close>: it throws, or the directory and those that lead to it
  exist afterwards.\<close>

definition mkdirSync :: "host \<Rightarrow> string \<Rightarrow> string + host" where
  "mkdirSync h p =
     (case mkdir_throws h p of
        Some errorMsg \<Rightarrow> Inl errorMsg
      | None \<Rightarrow> Inr (h\<lparr>existsSync := (\<lambda>q. existsSync h q \<or> q \<in> set (path_ancestors h p))\<rparr>))"

text \<open>What makes the promise of \<open>runValidate\<close> reject: a \<^verbatim>\<open>mkdirSync\<close> that throws, or
  an exception of the configuration loader during resolution.\<close>

datatype run_exn = MkdirError string | ConfigError config_exn

definition runValidate ::
  "host \<Rightarrow> RunSpec \<Rightarrow> world \<Rightarrow> (run_exn + RunResult) \<times> world" where
  "runValidate h spec w =
     (let artifactsAbs = path_resolve h (projectRoot spec) (artifactsDir spec);
          logsDir = path_join h artifactsAbs ''logs'';
          reportsDir = path_join h artifactsAbs ''reports''
      in case mkdirSync h logsDir of
           Inl errorMsg \<Rightarrow> (Inl (MkdirError errorMsg), w)
         | Inr h1 \<Rightarrow>
             (case mkdirSync h1 reportsDir of
                Inl errorMsg \<Rightarrow> (Inl (MkdirError errorMsg), w)
              | Inr h2 \<Rightarrow>
                  (case runFromResolve h2 spec w of
                     (Inl e, w') \<Rightarrow> (Inl (ConfigError e), w')
                   | (Inr r, w') \<Rightarrow> (Inr r, w'))))"

section \<open>Auxiliary definitions\<close>

text \<open>An artifact record is classified when its type is the one \<open>getArtifactType\<close>
  gives for its name.\<close>

definition classified :: "ArtifactInfo \<Rightarrow> bool" where
  "classified a = (getArtifactType (art_name a) = Some (art_type a))"

text \<open>The host that the two \<^verbatim>\<open>mkdirSync\<close> calls of \<open>runValidate\<close> leave when neither
  throws: the directories that lead to the logs and the reports directory exist.\<close>

definition with_dirs :: "host \<Rightarrow> RunSpec \<Rightarrow> host" where
  "with_dirs h spec =
     (let artifactsAbs = path_resolve h (projectRoot spec) (artifactsDir spec);
          logsDir = path_join h artifactsAbs ''logs'';
          reportsDir = path_join h artifactsAbs ''reports''
      in h\<lparr>existsSync :=
             (\<lambda>q. (existsSync h q \<or> q \<in> set (path_ancestors h logsDir))
                    \<or> q \<in> set (path_ancestors h reportsDir))\<rparr>)"

text \<open>Concrete hosts, specifications and configurations on which the theorems are
  applied: POSIX path functions without normalisation, a file system that holds exactly
  the listed paths, in which no \<^verbatim>\<open>mkdirSync\<close> and no \<^verbatim>\<open>writeFileSync\<close> throws, and a
  process table.\<close>

definition posix_join :: "string \<Rightarrow> string \<Rightarrow> string" where
  "posix_join a b = a @ ''/'' @ b"

definition posix_resolve :: "string \<Rightarrow> string \<Rightarrow> string" where
  "posix_resolve a b = (if startsWith b ''/'' then b else a @ ''/'' @ b)"

definition posix_ancestors :: "string \<Rightarrow> string list" where
  "posix_ancestors p = p # map (\<lambda>i. take i p) (filter (\<lambda>i. p ! i = CHR ''/'') [1..<length p])"

definition example_host ::
  "string list \<Rightarrow> yaml_file \<Rightarrow> (string \<Rightarrow> string list option) \<Rightarrow> (nat \<Rightarrow> proc_outcome) \<Rightarrow> host" where
  "example_host files yaml dirs procs =
     \<lparr> existsSync = (\<lambda>p. p \<in> set files),
       mkdir_throws = (\<lambda>p. None),
       write_throws = (\<lambda>p. None),
       path_resolve = posix_resolve,
       path_join = posix_join,
       path_ancestors = posix_ancestors,
       yaml_at = (\<lambda>p. yaml),
       readdirSync = dirs,
       statSync = (\<lambda>p. if p \<in> set files then Some (IsFile 10) else None),
       process_env = [''HOME'' \<mapsto> ''/home/dev'', ''CI'' \<mapsto> ''false''],
       process_cwd = ''/'',
       elapsed_ms = 5,
       proc = procs \<rparr>"

definition example_spec ::
  "string option \<Rightarrow> string option \<Rightarrow> string list option \<Rightarrow> bool option \<Rightarrow> RunSpec" where
  "example_spec s c a skip =
     \<lparr> projectRoot = ''/proj'', artifactsDir = ''artifacts'', timeoutSeconds = 300,
       spec_script = s, spec_configPath = c, spec_runner = None, spec_args = a,
       spec_env = None, spec_preCommands = None, skipSetup = skip, testName = None,
       spec_outputDir = None \<rparr>"

definition example_pre :: "string list \<Rightarrow> PreCommand" where
  "example_pre a = \<lparr> pc_argv = a, pc_env = None, pc_cwd = None \<rparr>"

definition example_config ::
  "string option \<Rightarrow> string option \<Rightarrow> bool \<Rightarrow> PreCommand list option \<Rightarrow> PreCommand list option
     \<Rightarrow> string option \<Rightarrow> raw_config" where
  "example_config s c skip setupCmds runCmds testDir =
     \<lparr> raw_version = 1,
       raw_setup_section = \<lparr> setup_pre_commands = setupCmds \<rparr>,
       raw_run_section =
         \<lparr> raw_runner = None, raw_script = s, raw_config_path = c, raw_args = [],
           raw_timeout_seconds = 1200, raw_artifacts_dir = ''artifacts/kitwe'',
           raw_output_dir = None, raw_env = None, raw_skip_setup = skip,
           raw_pre_commands = runCmds \<rparr>,
       raw_tests_section =
         \<lparr> raw_language = typescript, raw_test_dir = testDir, raw_pattern = None,
           raw_default_output_path = None,
           raw_prefer = [''data-testid'', ''role'', ''aria-label''],
           raw_avoid = [''class'', ''xpath''] \<rparr> \<rparr>"

text \<open>The document that validates to \<open>example_config\<close> when its \<open>tests\<close> section is
  absent.\<close>

definition example_doc ::
  "string option \<Rightarrow> string option \<Rightarrow> bool \<Rightarrow> PreCommand list option \<Rightarrow> PreCommand list option
     \<Rightarrow> yaml option \<Rightarrow> kitwe_doc" where
  "example_doc s c skip setupCmds runCmds tests =
     \<lparr> doc_version = 1,
       doc_setup = \<lparr> setup_pre_commands = setupCmds \<rparr>,
       doc_run =
         \<lparr> raw_runner = None, raw_script = s, raw_config_path = c, raw_args = [],
           raw_timeout_seconds = 1200, raw_artifacts_dir = ''artifacts/kitwe'',
           raw_output_dir = None, raw_env = None, raw_skip_setup = skip,
           raw_pre_commands = runCmds \<rparr>,
       doc_tests = tests \<rparr>"

definition example_command :: "string list \<Rightarrow> mode \<Rightarrow> ResolvedCommand" where
  "example_command a m =
     \<lparr> argv = a, cwd = ''/proj'', mode = m, env = None, preCommands = None \<rparr>"

definition new_world :: world where
  "new_world = \<lparr> spawned = [], written = [], progress = [] \<rparr>"

definition quiet :: proc_output where
  "quiet = \<lparr> out_stdout = [], out_stderr = [], out_durationMs = 1000 \<rparr>"

text \<open>\<open>runPreCommands\<close> goes on to the next pre-command exactly when the process
  closes with exit code \<open>0\<close>; otherwise it stops with the text below: the message of the
  \<^verbatim>\<open>catch\<close> branch when the spawn throws, and the message of the exit-code branch
  otherwise (an \<^verbatim>\<open>error\<close> event gives the exit code \<^verbatim>\<open>null\<close>).\<close>

definition pre_ok :: "proc_outcome \<Rightarrow> bool" where
  "pre_ok p = (case p of CloseEvent code fired out \<Rightarrow> code = Some 0 | _ \<Rightarrow> False)"

definition pre_failure_text :: "nat \<Rightarrow> string \<Rightarrow> string \<Rightarrow> proc_outcome \<Rightarrow> string" where
  "pre_failure_text i cmdStr logPath p =
     (case p of
        SpawnThrows m \<Rightarrow> ''Pre-command '' @ show_nat i @ '' error: '' @ m
      | ErrorEvent m out \<Rightarrow>
          ''Pre-command '' @ show_nat i @ '' failed with exit code null: '' @ cmdStr
          @ nl @ ''See log: '' @ logPath
      | CloseEvent code fired out \<Rightarrow>
          ''Pre-command '' @ show_nat i @ '' failed with exit code '' @ show_exit_code code
          @ '': '' @ cmdStr @ nl @ ''See log: '' @ logPath)"

text \<open>The persisted configuration of a project root, as the resolver is given it: \<open>None\<close>
  when there is no kitwe.yaml, and the validated data when there is one that loads and
  passes the schema.\<close>

definition persisted :: "host \<Rightarrow> string \<Rightarrow> raw_config option \<Rightarrow> bool" where
  "persisted h root cfg =
     (case cfg of
        None \<Rightarrow> \<not> existsSync h (getConfigPath h root)
      | Some raw \<Rightarrow> existsSync h (getConfigPath h root)
                  \<and> (case yaml_at h (getConfigPath h root) of
                        YamlMapping d \<Rightarrow> KitweConfigSchema d = Some raw
                      | _ \<Rightarrow> False))"


text \<open>A project whose kitwe.yaml names the script \<open>test:e2e\<close> and two setup commands,
  and the command it resolves to.\<close>

definition setup_host :: "(nat \<Rightarrow> proc_outcome) \<Rightarrow> host" where
  "setup_host procs =
     example_host [''/proj'', ''/proj/kitwe.yaml'']
        (YamlMapping (example_doc (Some ''test:e2e'') None False
                        (Some [example_pre [''npm'', ''run'', ''db:reset''],
                               example_pre [''npm'', ''run'', ''db:seed'']]) None None))
        (\<lambda>d. None) procs"

definition setup_command :: ResolvedCommand where
  "setup_command =
     \<lparr> argv = [''npm'', ''run'', ''test:e2e''], cwd = ''/proj'', mode = yaml_script, env = None,
       preCommands = Some [\<lparr> pc_argv = [''npm'', ''run'', ''db:reset''], pc_env = None,
                               pc_cwd = Some ''/proj'' \<rparr>,
                            \<lparr> pc_argv = [''npm'', ''run'', ''db:seed''], pc_env = None,
                               pc_cwd = Some ''/proj'' \<rparr>] \<rparr>"

section \<open>Basic facts about the executor\<close>

lemma spawned_onProgress: "spawned (onProgress s d w) = spawned w"
  by (simp add: onProgress_def)

lemma deriveStatus_cases:
  "deriveStatus r =
     (if cr_timedOut r then timeout
      else case cr_exitCode r of None \<Rightarrow> error | Some c \<Rightarrow> if c = 0 then passed else failed)"
  by (simp add: deriveStatus_def split: option.split)

lemma runCommand_close:
  "proc h (length (spawned w)) = CloseEvent code fired out \<Longrightarrow>
   fst (runCommand h a opts w) =
     Inr \<lparr> cr_exitCode = code, cr_stdout = out_stdout out, cr_stderr = out_stderr out,
           cr_timedOut = fired, cr_durationMs = out_durationMs out \<rparr>"
  by (simp add: runCommand_def Let_def)

lemma runCommand_error:
  "proc h (length (spawned w)) = ErrorEvent msg out \<Longrightarrow>
   fst (runCommand h a opts w) =
     Inr \<lparr> cr_exitCode = None, cr_stdout = out_stdout out, cr_stderr = out_stderr out @ nl @ msg,
           cr_timedOut = False, cr_durationMs = out_durationMs out \<rparr>"
  by (simp add: runCommand_def Let_def)

lemma runCommand_throws:
  "proc h (length (spawned w)) = SpawnThrows msg \<Longrightarrow> fst (runCommand h a opts w) = Inl msg"
  by (simp add: runCommand_def Let_def)

text \<open>The main command's result once the process has been spawned: the
  \<open>execution_error\<close> result with the message of the first log write that throws, and the
  assembled result when both logs are written.\<close>

lemma runMain_result:
  "fst (runMain h spec resolved runEnv logsDir w) =
     (case fst (runCommand h (prepareCommandWithReporter resolved)
                 \<lparr> opt_cwd = cwd resolved, opt_env = runEnv,
                   opt_timeoutMs = timeoutSeconds spec * 1000, opt_logPath = None \<rparr>
                 (onProgress ''execute''
                    (''Running tests: '' @ join_with '' '' (take 3 (prepareCommandWithReporter resolved))
                       @ (if length (prepareCommandWithReporter resolved) > 3 then ''...'' else [])) w)) of
        Inl errorMsg \<Rightarrow> createErrorResult h ''execution_error'' errorMsg
      | Inr result \<Rightarrow>
          (case write_throws h (path_join h logsDir ''stdout.log'') of
             Some errorMsg \<Rightarrow> createErrorResult h ''execution_error'' errorMsg
           | None \<Rightarrow>
              (case write_throws h (path_join h logsDir ''stderr.log'') of
                 Some errorMsg \<Rightarrow> createErrorResult h ''execution_error'' errorMsg
               | None \<Rightarrow>
                   assembleResult spec result
                     (collectArtifacts h (projectRoot spec)
                        (if truthy (spec_outputDir spec)
                         then (case spec_outputDir spec of Some d \<Rightarrow> d | None \<Rightarrow> ''test-results'')
                         else ''test-results''))
                     (prepareCommandWithReporter resolved))))"
  by (simp add: runMain_def writeFileSync_def Let_def split: prod.split sum.split option.split)

text \<open>Without pre-commands the run goes straight to the main command, and the
  process it spawns there gets the environment built for the run and the resolved working
  directory.\<close>

lemma runFromResolve_without_pre:
  assumes "resolveRunSpec h spec = Inr (IsCommand resolved)"
      and "preCommands resolved = None \<or> preCommands resolved = Some []"
  shows "fst (runFromResolve h spec w) =
           Inr (fst (runMain h spec resolved
                       (buildRunEnv (process_env h) (spec_env spec) (env resolved))
                       (path_join h (path_resolve h (projectRoot spec) (artifactsDir spec)) ''logs'')
                       (onProgress ''resolve'' ''Resolving test command...'' w)))"
  using assms by (auto simp: runFromResolve_def Let_def split_beta)

lemma spawned_writeFileSync: "writeFileSync h p w = Inr w' \<Longrightarrow> spawned w' = spawned w"
  by (auto simp: writeFileSync_def split: option.splits)

lemma runMain_spawn:
  "sp_env (last (spawned (snd (runMain h spec resolved runEnv logsDir w)))) = runEnv
   \<and> sp_cwd (last (spawned (snd (runMain h spec resolved runEnv logsDir w)))) = cwd resolved"
  by (cases "proc h (length (spawned w))")
     (simp_all add: runMain_def runCommand_def writeFileSync_def Let_def spawned_onProgress
        onProgress_def write_log_def truthy_def split: option.split)

text \<open>The two \<^verbatim>\<open>mkdirSync\<close> calls read and change nothing but the file system.\<close>

lemma with_dirs_fields [simp]:
  "proc (with_dirs h spec) = proc h"
  "path_resolve (with_dirs h spec) = path_resolve h"
  "path_join (with_dirs h spec) = path_join h"
  "yaml_at (with_dirs h spec) = yaml_at h"
  "process_env (with_dirs h spec) = process_env h"
  "write_throws (with_dirs h spec) = write_throws h"
  "elapsed_ms (with_dirs h spec) = elapsed_ms h"
  by (simp_all add: with_dirs_def Let_def)

lemma existsSync_with_dirs: "existsSync h p \<Longrightarrow> existsSync (with_dirs h spec) p"
  by (simp add: with_dirs_def Let_def)

text \<open>\<open>runValidate\<close> rejects with the message of the first \<^verbatim>\<open>mkdirSync\<close> that throws,
  before anything is resolved or spawned; when neither throws it goes on, on the host
  with the two directories.\<close>

lemma runValidate_mkdir_throws:
  assumes "mkdir_throws h (path_join h (path_resolve h (projectRoot spec) (artifactsDir spec)) ''logs'')
             = Some m
           \<or> (mkdir_throws h (path_join h (path_resolve h (projectRoot spec) (artifactsDir spec)) ''logs'')
                = None
              \<and> mkdir_throws h (path_join h (path_resolve h (projectRoot spec) (artifactsDir spec))
                                   ''reports'') = Some m)"
  shows "runValidate h spec w = (Inl (MkdirError m), w)"
  using assms by (auto simp: runValidate_def mkdirSync_def Let_def)

lemma runValidate_dirs:
  assumes "mkdir_throws h (path_join h (path_resolve h (projectRoot spec) (artifactsDir spec)) ''logs'')
             = None"
      and "mkdir_throws h (path_join h (path_resolve h (projectRoot spec) (artifactsDir spec)) ''reports'')
             = None"
  shows "runValidate h spec w =
           (case runFromResolve (with_dirs h spec) spec w of
              (Inl e, w') \<Rightarrow> (Inl (ConfigError e), w')
            | (Inr r, w') \<Rightarrow> (Inr r, w'))"
  using assms by (simp add: runValidate_def mkdirSync_def with_dirs_def Let_def)

text \<open>The recursive \<^verbatim>\<open>mkdirSync\<close> creates a missing project root when the artifacts
  directory lies below it, and then the run does not end with \<open>project_not_found\<close>: the
  resolver finds the root.\<close>

lemma created_root_exists:
  assumes "projectRoot spec
             \<in> set (path_ancestors h
                      (path_join h (path_resolve h (projectRoot spec) (artifactsDir spec)) ''logs''))"
  shows "existsSync (with_dirs h spec) (projectRoot spec)"
  using assms by (simp add: with_dirs_def Let_def)

section \<open>Status of a run\<close>

text \<open>Claim C2 as stated fails: a main command that closes with exit code \<open>0\<close> before
  the deadline, on a host where
  the write of \<^verbatim>\<open>stdout.log\<close> throws: the status of the result is \<open>error\<close> and its exit
  code \<open>-1\<close>, not \<open>passed\<close> and \<open>0\<close>.\<close>

theorem status_after_failed_log_write:
  "rr_status (fst (runMain
      ((example_host [] YamlEmpty (\<lambda>d. None) (\<lambda>n. CloseEvent (Some 0) False quiet))
         \<lparr>write_throws := (\<lambda>p. if p = ''/proj/artifacts/logs/stdout.log''
                                then Some ''ENOSPC: no space left on device, write'' else None)\<rparr>)
      (example_spec (Some ''test:e2e'') None None None)
      (example_command [''npm'', ''run'', ''test:e2e''] cli_script)
      Map.empty ''/proj/artifacts/logs'' new_world)) = error
   \<and> rr_exitCode (fst (runMain
      ((example_host [] YamlEmpty (\<lambda>d. None) (\<lambda>n. CloseEvent (Some 0) False quiet))
         \<lparr>write_throws := (\<lambda>p. if p = ''/proj/artifacts/logs/stdout.log''
                                then Some ''ENOSPC: no space left on device, write'' else None)\<rparr>)
      (example_spec (Some ''test:e2e'') None None None)
      (example_command [''npm'', ''run'', ''test:e2e''] cli_script)
      Map.empty ''/proj/artifacts/logs'' new_world)) = - 1
   \<and> rr_error (fst (runMain
      ((example_host [] YamlEmpty (\<lambda>d. None) (\<lambda>n. CloseEvent (Some 0) False quiet))
         \<lparr>write_throws := (\<lambda>p. if p = ''/proj/artifacts/logs/stdout.log''
                                then Some ''ENOSPC: no space left on device, write'' else None)\<rparr>)
      (example_spec (Some ''test:e2e'') None None None)
      (example_command [''npm'', ''run'', ''test:e2e''] cli_script)
      Map.empty ''/proj/artifacts/logs'' new_world))
       = Some ''[execution_error] ENOSPC: no space left on device, write''"
  by (simp add: runMain_def runCommand_def writeFileSync_def createErrorResult_def Let_def
        example_host_def example_spec_def example_command_def new_world_def onProgress_def
        posix_join_def)

text \<open>
  Claim C2, as amended. When the main command's process closes and both of its logs are
  written, the status of the result is \<open>timeout\<close> if the timeout timer fired; otherwise
  \<open>error\<close> if there is no exit code, and then the exit code of the result is \<open>-1\<close>;
  otherwise \<open>passed\<close> exactly when the exit code is \<open>0\<close>, and \<open>failed\<close> for every other
  code. When the process emits \<^verbatim>\<open>error\<close> there is no exit code either: the status is
  \<open>error\<close> and the exit code \<open>-1\<close>. When the write of \<^verbatim>\<open>stdout.log\<close>, or after it the
  write of \<^verbatim>\<open>stderr.log\<close>, throws with message \<open>m\<close>, the result is the
  \<open>execution_error\<close> result with that message, of status \<open>error\<close> and exit code \<open>-1\<close>,
  whatever the process did. Here \<open>runMain\<close> is the part of \<^verbatim>\<open>runValidate\<close> from the main
  command on, started in any world \<open>w\<close>.
\<close>

theorem status_derivation:
  "(proc h (length (spawned w)) = CloseEvent code fired out
      \<and> write_throws h (path_join h logsDir ''stdout.log'') = None
      \<and> write_throws h (path_join h logsDir ''stderr.log'') = None \<longrightarrow>
      rr_status (fst (runMain h spec resolved runEnv logsDir w)) =
        (if fired then timeout
         else case code of None \<Rightarrow> error | Some c \<Rightarrow> if c = 0 then passed else failed)
    \<and> rr_exitCode (fst (runMain h spec resolved runEnv logsDir w)) =
        (case code of None \<Rightarrow> - 1 | Some c \<Rightarrow> c))
   \<and> (proc h (length (spawned w)) = ErrorEvent msg out
      \<and> write_throws h (path_join h logsDir ''stdout.log'') = None
      \<and> write_throws h (path_join h logsDir ''stderr.log'') = None \<longrightarrow>
      rr_status (fst (runMain h spec resolved runEnv logsDir w)) = error
    \<and> rr_exitCode (fst (runMain h spec resolved runEnv logsDir w)) = - 1)
   \<and> ((proc h (length (spawned w)) = CloseEvent code fired out
        \<or> proc h (length (spawned w)) = ErrorEvent msg out)
      \<and> (write_throws h (path_join h logsDir ''stdout.log'') = Some m
          \<or> (write_throws h (path_join h logsDir ''stdout.log'') = None
              \<and> write_throws h (path_join h logsDir ''stderr.log'') = Some m)) \<longrightarrow>
      fst (runMain h spec resolved runEnv logsDir w) = createErrorResult h ''execution_error'' m
    \<and> rr_status (fst (runMain h spec resolved runEnv logsDir w)) = error
    \<and> rr_exitCode (fst (runMain h spec resolved runEnv logsDir w)) = - 1)"
proof -
  have C: "fst (runCommand h a opts (onProgress s d w)) =
     Inr \<lparr> cr_exitCode = code, cr_stdout = out_stdout out, cr_stderr = out_stderr out,
           cr_timedOut = fired, cr_durationMs = out_durationMs out \<rparr>"
    if "proc h (length (spawned w)) = CloseEvent code fired out" for a opts s d
    using that by (intro runCommand_close) (simp add: spawned_onProgress)
  have E: "fst (runCommand h a opts (onProgress s d w)) =
     Inr \<lparr> cr_exitCode = None, cr_stdout = out_stdout out, cr_stderr = out_stderr out @ nl @ msg,
           cr_timedOut = False, cr_durationMs = out_durationMs out \<rparr>"
    if "proc h (length (spawned w)) = ErrorEvent msg out" for a opts s d
    using that by (intro runCommand_error) (simp add: spawned_onProgress)
  have 1: "proc h (length (spawned w)) = CloseEvent code fired out
      \<and> write_throws h (path_join h logsDir ''stdout.log'') = None
      \<and> write_throws h (path_join h logsDir ''stderr.log'') = None \<longrightarrow>
      rr_status (fst (runMain h spec resolved runEnv logsDir w)) =
        (if fired then timeout
         else case code of None \<Rightarrow> error | Some c \<Rightarrow> if c = 0 then passed else failed)
    \<and> rr_exitCode (fst (runMain h spec resolved runEnv logsDir w)) =
        (case code of None \<Rightarrow> - 1 | Some c \<Rightarrow> c)"
    by (simp add: runMain_result C assembleResult_def deriveStatus_cases)
  have 2: "proc h (length (spawned w)) = ErrorEvent msg out
      \<and> write_throws h (path_join h logsDir ''stdout.log'') = None
      \<and> write_throws h (path_join h logsDir ''stderr.log'') = None \<longrightarrow>
      rr_status (fst (runMain h spec resolved runEnv logsDir w)) = error
    \<and> rr_exitCode (fst (runMain h spec resolved runEnv logsDir w)) = - 1"
    by (simp add: runMain_result E assembleResult_def deriveStatus_cases)
  have 3: "(proc h (length (spawned w)) = CloseEvent code fired out
        \<or> proc h (length (spawned w)) = ErrorEvent msg out)
      \<and> (write_throws h (path_join h logsDir ''stdout.log'') = Some m
          \<or> (write_throws h (path_join h logsDir ''stdout.log'') = None
              \<and> write_throws h (path_join h logsDir ''stderr.log'') = Some m)) \<longrightarrow>
      fst (runMain h spec resolved runEnv logsDir w) = createErrorResult h ''execution_error'' m
    \<and> rr_status (fst (runMain h spec resolved runEnv logsDir w)) = error
    \<and> rr_exitCode (fst (runMain h spec resolved runEnv logsDir w)) = - 1"
    by (auto simp: runMain_result C E createErrorResult_def)
  from 1 2 3 show ?thesis by (intro conjI)
qed

theorem status_derivation_witness:
  "rr_status (fst (runMain (example_host [] YamlEmpty (\<lambda>d. None) (\<lambda>n. CloseEvent (Some 7) False quiet))
                     (example_spec (Some ''test:e2e'') None None None)
                     (example_command [''npm'', ''run'', ''test:e2e''] cli_script)
                     Map.empty ''/proj/artifacts/logs'' new_world)) = failed
   \<and> rr_exitCode (fst (runMain (example_host [] YamlEmpty (\<lambda>d. None) (\<lambda>n. CloseEvent (Some 7) False quiet))
                     (example_spec (Some ''test:e2e'') None None None)
                     (example_command [''npm'', ''run'', ''test:e2e''] cli_script)
                     Map.empty ''/proj/artifacts/logs'' new_world)) = 7
   \<and> rr_status (fst (runMain
        ((example_host [] YamlEmpty (\<lambda>d. None) (\<lambda>n. CloseEvent (Some 7) False quiet))
           \<lparr>write_throws := (\<lambda>p. if p = ''/proj/artifacts/logs/stderr.log''
                                  then Some ''EACCES: permission denied'' else None)\<rparr>)
        (example_spec (Some ''test:e2e'') None None None)
        (example_command [''npm'', ''run'', ''test:e2e''] cli_script)
        Map.empty ''/proj/artifacts/logs'' new_world)) = error"
proof -
  let ?H = "example_host [] YamlEmpty (\<lambda>d. None) (\<lambda>n. CloseEvent (Some 7) False quiet)"
  let ?F = "?H\<lparr>write_throws := (\<lambda>p. if p = ''/proj/artifacts/logs/stderr.log''
                                  then Some ''EACCES: permission denied'' else None)\<rparr>"
  note A = status_derivation
          [where h = ?H and w = new_world and code = "Some 7" and fired = False and out = quiet
             and spec = "example_spec (Some ''test:e2e'') None None None"
             and resolved = "example_command [''npm'', ''run'', ''test:e2e''] cli_script"
             and runEnv = Map.empty and logsDir = "''/proj/artifacts/logs''", THEN conjunct1]
  note B = status_derivation
          [where h = ?F and w = new_world and code = "Some 7" and fired = False and out = quiet
             and m = "''EACCES: permission denied''" and msg = "[]"
             and spec = "example_spec (Some ''test:e2e'') None None None"
             and resolved = "example_command [''npm'', ''run'', ''test:e2e''] cli_script"
             and runEnv = Map.empty and logsDir = "''/proj/artifacts/logs''",
           THEN conjunct2, THEN conjunct2]
  have 1: "rr_status (fst (runMain ?H (example_spec (Some ''test:e2e'') None None None)
                     (example_command [''npm'', ''run'', ''test:e2e''] cli_script)
                     Map.empty ''/proj/artifacts/logs'' new_world)) = failed
         \<and> rr_exitCode (fst (runMain ?H (example_spec (Some ''test:e2e'') None None None)
                     (example_command [''npm'', ''run'', ''test:e2e''] cli_script)
                     Map.empty ''/proj/artifacts/logs'' new_world)) = 7"
    using A by (simp add: example_host_def)
  have 2: "rr_status (fst (runMain ?F (example_spec (Some ''test:e2e'') None None None)
                     (example_command [''npm'', ''run'', ''test:e2e''] cli_script)
                     Map.empty ''/proj/artifacts/logs'' new_world)) = error"
  proof -
    have "(proc ?F (length (spawned new_world)) = CloseEvent (Some 7) False quiet
            \<or> proc ?F (length (spawned new_world)) = ErrorEvent [] quiet)
          \<and> (write_throws ?F (path_join ?F ''/proj/artifacts/logs'' ''stdout.log'')
               = Some ''EACCES: permission denied''
             \<or> (write_throws ?F (path_join ?F ''/proj/artifacts/logs'' ''stdout.log'') = None
                 \<and> write_throws ?F (path_join ?F ''/proj/artifacts/logs'' ''stderr.log'')
                     = Some ''EACCES: permission denied''))"
      by (simp add: example_host_def posix_join_def)
    from B[THEN mp, OF this] show ?thesis by (rule conjunct2[THEN conjunct1])
  qed
  show ?thesis using 1 2 by simp
qed

section \<open>The environment of a run\<close>

text \<open>
  Claim C8. The value of every key \<open>k\<close> in the environment of the run is the one in the
  resolved command's overlay if \<open>k\<close> is present there; else the one in the caller's
  \<^verbatim>\<open>spec.env\<close> if present there; else \<open>true\<close> for \<open>CI\<close> and \<open>never\<close> for
  \<open>PLAYWRIGHT_HTML_OPEN\<close>; else the inherited one.
\<close>

theorem env_layering:
  "buildRunEnv inherited specEnv resolvedEnv k =
     (case (case resolvedEnv of None \<Rightarrow> None | Some e \<Rightarrow> e k) of
        Some v \<Rightarrow> Some v
      | None \<Rightarrow>
         (case (case specEnv of None \<Rightarrow> None | Some e \<Rightarrow> e k) of
            Some v \<Rightarrow> Some v
          | None \<Rightarrow> if k = ''CI'' then Some ''true''
                    else if k = ''PLAYWRIGHT_HTML_OPEN'' then Some ''never''
                    else inherited k))"
  by (cases resolvedEnv; cases specEnv)
     (simp_all add: buildRunEnv_def Let_def map_add_def split: option.split)

theorem env_layering_witness:
  "buildRunEnv [''CI'' \<mapsto> ''false'', ''HOME'' \<mapsto> ''/home/dev'']
     (Some [''CI'' \<mapsto> ''1'', ''BASE_URL'' \<mapsto> ''http://a''])
     (Some [''BASE_URL'' \<mapsto> ''http://b'']) ''CI'' = Some ''1''
   \<and> buildRunEnv [''CI'' \<mapsto> ''false'', ''HOME'' \<mapsto> ''/home/dev'']
     (Some [''CI'' \<mapsto> ''1'', ''BASE_URL'' \<mapsto> ''http://a''])
     (Some [''BASE_URL'' \<mapsto> ''http://b'']) ''BASE_URL'' = Some ''http://b''
   \<and> buildRunEnv [''CI'' \<mapsto> ''false'', ''HOME'' \<mapsto> ''/home/dev''] None None ''CI'' = Some ''true''
   \<and> buildRunEnv [''CI'' \<mapsto> ''false'', ''HOME'' \<mapsto> ''/home/dev''] None None ''HOME''
       = Some ''/home/dev''"
  using env_layering [of "[''CI'' \<mapsto> ''false'', ''HOME'' \<mapsto> ''/home/dev'']"
                         "Some [''CI'' \<mapsto> ''1'', ''BASE_URL'' \<mapsto> ''http://a'']"
                         "Some [''BASE_URL'' \<mapsto> ''http://b'']" "''CI''"]
        env_layering [of "[''CI'' \<mapsto> ''false'', ''HOME'' \<mapsto> ''/home/dev'']"
                         "Some [''CI'' \<mapsto> ''1'', ''BASE_URL'' \<mapsto> ''http://a'']"
                         "Some [''BASE_URL'' \<mapsto> ''http://b'']" "''BASE_URL''"]
        env_layering [of "[''CI'' \<mapsto> ''false'', ''HOME'' \<mapsto> ''/home/dev'']" None None "''CI''"]
        env_layering [of "[''CI'' \<mapsto> ''false'', ''HOME'' \<mapsto> ''/home/dev'']" None None "''HOME''"]
  by simp

section \<open>Artifact classification\<close>

lemma getArtifactType_range:
  "getArtifactType f = Some t \<Longrightarrow> t \<in> {screenshot, trace, video, report}"
proof -
  have "getArtifactType f \<in> {None, Some screenshot, Some trace, Some video, Some report}"
    by (simp add: getArtifactType_def Let_def)
  then show "getArtifactType f = Some t \<Longrightarrow> t \<in> {screenshot, trace, video, report}"
    by auto
qed

lemma getArtifactType_None_iff:
  "getArtifactType f = None \<longleftrightarrow>
     \<not> (endsWith (toLowerCase f) ''.png'' \<or> endsWith (toLowerCase f) ''.jpg''
        \<or> endsWith (toLowerCase f) ''.jpeg''
        \<or> (endsWith (toLowerCase f) ''.zip'' \<and> str_includes (toLowerCase f) ''trace'')
        \<or> endsWith (toLowerCase f) ''.webm'' \<or> endsWith (toLowerCase f) ''.mp4''
        \<or> (endsWith (toLowerCase f) ''.html'' \<and> str_includes (toLowerCase f) ''report'')
        \<or> (endsWith (toLowerCase f) ''.json'' \<and> str_includes (toLowerCase f) ''report''))"
  by (simp add: getArtifactType_def Let_def)

lemma collect_inv:
  "(\<forall>a \<in> set arts. classified a) \<longrightarrow> (\<forall>a \<in> set (collectArtifactsFromDir h dir arts depth). classified a)"
  "(\<forall>a \<in> set arts. classified a) \<longrightarrow> (\<forall>a \<in> set (collect_entries h dir entries arts depth). classified a)"
proof (induction h dir arts depth and h dir entries arts depth rule: collectArtifactsFromDir_collect_entries.induct)
  case (1 h dir artifacts depth)
  then show ?case by (simp add: collectArtifactsFromDir.simps split: option.splits)
next
  case (2 h dir artifacts depth)
  then show ?case by simp
next
  case (3 h dir entry rest artifacts depth)
  show ?case
  proof
    assume A: "\<forall>a\<in>set artifacts. classified a"
    let ?fp = "path_join h dir entry"
    let ?arts' = "(case statSync h ?fp of
           None \<Rightarrow> artifacts
         | Some IsDirectory \<Rightarrow> collectArtifactsFromDir h ?fp artifacts (depth + 1)
         | Some (IsFile sz) \<Rightarrow>
             (case getArtifactType entry of
                Some t \<Rightarrow> artifacts @ [\<lparr> art_type = t, art_path = ?fp,
                                          art_name = entry, art_size = sz \<rparr>]
              | None \<Rightarrow> artifacts)
         | Some IsOther \<Rightarrow> artifacts)"
    have B: "\<forall>a\<in>set ?arts'. classified a"
    proof (cases "statSync h ?fp")
      case None
      then show ?thesis using A by simp
    next
      case (Some st)
      then show ?thesis
      proof (cases st)
        case (IsFile sz)
        then show ?thesis using A Some by (auto simp: classified_def split: option.splits)
      next
        case IsDirectory
        then show ?thesis using A Some "3.IH"(1)[OF refl, of st] by simp
      next
        case IsOther
        then show ?thesis using A Some by simp
      qed
    qed
    from "3.IH"(2)[OF refl] B
    show "\<forall>a\<in>set (collect_entries h dir (entry # rest) artifacts depth). classified a"
      by (simp add: Let_def)
  qed
qed

lemma collectArtifacts_classified:
  "\<forall>a \<in> set (collectArtifacts h root outputDir). classified a"
proof -
  define step where
    "step arts d = (if \<not> existsSync h d then arts else collectArtifactsFromDir h d arts 0)"
    for arts d
  have S: "\<forall>a\<in>set (step arts d). classified a" if "\<forall>a\<in>set arts. classified a" for arts d
  proof (cases "existsSync h d")
    case True
    then show ?thesis using collect_inv(1)[of arts h d 0] that by (simp add: step_def)
  next
    case False
    then show ?thesis using that by (simp add: step_def)
  qed
  have E: "collectArtifacts h root outputDir =
        step (step (step [] (path_join h root ''test-results''))
                (path_join h root ''playwright-report'')) outputDir"
    by (simp add: collectArtifacts_def step_def)
  have "\<forall>a\<in>set ([]::ArtifactInfo list). classified a" by simp
  then show ?thesis unfolding E by (intro S)
qed

text \<open>
  Claim C10. Every artifact in the list that \<open>collectArtifacts\<close> returns has one of the
  types screenshot, trace, video and report, the one \<open>getArtifactType\<close> gives for its name;
  \<open>getArtifactType\<close> never answers \<open>other\<close>; and a file whose lower-cased name matches
  none of the patterns gets no type and no artifact in the list bears its name.
\<close>

theorem artifact_types:
  "(\<forall>a \<in> set (collectArtifacts h root outputDir).
       art_type a \<in> {screenshot, trace, video, report}
     \<and> getArtifactType (art_name a) = Some (art_type a))
   \<and> getArtifactType filename \<noteq> Some other
   \<and> (\<not> (endsWith (toLowerCase filename) ''.png'' \<or> endsWith (toLowerCase filename) ''.jpg''
          \<or> endsWith (toLowerCase filename) ''.jpeg''
          \<or> (endsWith (toLowerCase filename) ''.zip'' \<and> str_includes (toLowerCase filename) ''trace'')
          \<or> endsWith (toLowerCase filename) ''.webm'' \<or> endsWith (toLowerCase filename) ''.mp4''
          \<or> (endsWith (toLowerCase filename) ''.html'' \<and> str_includes (toLowerCase filename) ''report'')
          \<or> (endsWith (toLowerCase filename) ''.json'' \<and> str_includes (toLowerCase filename) ''report''))
        \<longrightarrow> getArtifactType filename = None
            \<and> (\<forall>a \<in> set (collectArtifacts h root outputDir). art_name a \<noteq> filename))"
proof -
  have 1: "\<forall>a \<in> set (collectArtifacts h root outputDir).
       art_type a \<in> {screenshot, trace, video, report}
     \<and> getArtifactType (art_name a) = Some (art_type a)"
    using collectArtifacts_classified[of h root outputDir] getArtifactType_range
    unfolding classified_def by blast
  have 2: "getArtifactType filename \<noteq> Some other"
    using getArtifactType_range[of filename other] by auto
  have 3: "\<forall>a \<in> set (collectArtifacts h root outputDir). art_name a \<noteq> filename"
    if "getArtifactType filename = None"
    using 1 that by auto
  show ?thesis
  proof (intro conjI impI)
    assume N: "\<not> (endsWith (toLowerCase filename) ''.png'' \<or> endsWith (toLowerCase filename) ''.jpg''
          \<or> endsWith (toLowerCase filename) ''.jpeg''
          \<or> (endsWith (toLowerCase filename) ''.zip'' \<and> str_includes (toLowerCase filename) ''trace'')
          \<or> endsWith (toLowerCase filename) ''.webm'' \<or> endsWith (toLowerCase filename) ''.mp4''
          \<or> (endsWith (toLowerCase filename) ''.html'' \<and> str_includes (toLowerCase filename) ''report'')
          \<or> (endsWith (toLowerCase filename) ''.json'' \<and> str_includes (toLowerCase filename) ''report''))"
    then show G: "getArtifactType filename = None"
      unfolding getArtifactType_None_iff .
    show "\<forall>a \<in> set (collectArtifacts h root outputDir). art_name a \<noteq> filename"
      by (rule 3) (rule G)
  qed (rule 1, rule 2)
qed



lemma ex_collect:
  "collectArtifacts
          (example_host [''/proj/test-results'', ''/proj/test-results/shot.PNG'',
                         ''/proj/test-results/notes.txt'']
             YamlEmpty
             (\<lambda>d. if d = ''/proj/test-results'' then Some [''shot.PNG'', ''notes.txt''] else None)
             (\<lambda>n. SpawnThrows []))
          ''/proj'' ''out'' 
   = [\<lparr> art_type = screenshot, art_path = ''/proj/test-results/shot.PNG'',
           art_name = ''shot.PNG'', art_size = 10 \<rparr>]"
  by code_simp

theorem artifact_types_witness:
  "art_type (hd (collectArtifacts
          (example_host [''/proj/test-results'', ''/proj/test-results/shot.PNG'',
                         ''/proj/test-results/notes.txt'']
             YamlEmpty
             (\<lambda>d. if d = ''/proj/test-results'' then Some [''shot.PNG'', ''notes.txt''] else None)
             (\<lambda>n. SpawnThrows []))
          ''/proj'' ''out'')) = screenshot
   \<and> getArtifactType ''notes.txt'' = None
   \<and> getArtifactType ''shot.PNG'' = Some screenshot"
proof -
  let ?H = "example_host [''/proj/test-results'', ''/proj/test-results/shot.PNG'',
                         ''/proj/test-results/notes.txt'']
             YamlEmpty
             (\<lambda>d. if d = ''/proj/test-results'' then Some [''shot.PNG'', ''notes.txt''] else None)
             (\<lambda>n. SpawnThrows [])"
  note T = artifact_types [where h = ?H and root = "''/proj''" and outputDir = "''out''"
                             and filename = "''notes.txt''"]
  have N: "\<not> (endsWith (toLowerCase ''notes.txt'') ''.png'' \<or> endsWith (toLowerCase ''notes.txt'') ''.jpg''
          \<or> endsWith (toLowerCase ''notes.txt'') ''.jpeg''
          \<or> (endsWith (toLowerCase ''notes.txt'') ''.zip'' \<and> str_includes (toLowerCase ''notes.txt'') ''trace'')
          \<or> endsWith (toLowerCase ''notes.txt'') ''.webm'' \<or> endsWith (toLowerCase ''notes.txt'') ''.mp4''
          \<or> (endsWith (toLowerCase ''notes.txt'') ''.html'' \<and> str_includes (toLowerCase ''notes.txt'') ''report'')
          \<or> (endsWith (toLowerCase ''notes.txt'') ''.json'' \<and> str_includes (toLowerCase ''notes.txt'') ''report''))"
    by code_simp
  from T N have 1: "getArtifactType ''notes.txt'' = None" by blast
  from T have "\<forall>a \<in> set (collectArtifacts ?H ''/proj'' ''out'').
       art_type a \<in> {screenshot, trace, video, report}
     \<and> getArtifactType (art_name a) = Some (art_type a)" by blast
  then have 2: "getArtifactType ''shot.PNG'' = Some screenshot"
    by (simp add: ex_collect)
  show ?thesis using 1 2 by (simp add: ex_collect)
qed

section \<open>Resolution\<close>

lemma getRunPreCommands_valid:
  assumes "existsSync h (getConfigPath h root)"
      and "yaml_at h (getConfigPath h root) = YamlMapping d"
      and "KitweConfigSchema d = Some raw"
  shows "getRunPreCommands h root =
           (if \<not> raw_skip_setup (raw_run_section raw)
            then (case setup_pre_commands (raw_setup_section raw) of None \<Rightarrow> [] | Some cs \<Rightarrow> cs)
            else [])
           @ (case raw_pre_commands (raw_run_section raw) of None \<Rightarrow> [] | Some cs \<Rightarrow> cs)"
  using assms by (simp add: getRunPreCommands_def Let_def)

lemma persisted_Some:
  "persisted h root (Some raw) \<longleftrightarrow>
     existsSync h (getConfigPath h root)
     \<and> (\<exists>d. yaml_at h (getConfigPath h root) = YamlMapping d \<and> KitweConfigSchema d = Some raw)"
  by (cases "yaml_at h (getConfigPath h root)") (simp_all add: persisted_def)

lemma persisted_loads:
  "persisted h root cfg \<Longrightarrow>
   loadRunConfig h root = Inr (map_option (\<lambda>raw. kc_run (convertToTypescript raw)) cfg)"
proof (cases cfg)
  case None
  assume "persisted h root cfg"
  then show ?thesis
    using None by (simp add: persisted_def loadRunConfig_def loadProjectConfig_def Let_def)
next
  case (Some raw)
  assume "persisted h root cfg"
  then obtain d where "existsSync h (getConfigPath h root)"
      and "yaml_at h (getConfigPath h root) = YamlMapping d" and "KitweConfigSchema d = Some raw"
    using Some by (auto simp: persisted_Some)
  then show ?thesis
    using Some by (simp add: loadRunConfig_def loadProjectConfig_def Let_def)
qed

text \<open>A kitwe.yaml is absent, or loads and passes the schema, or makes the loader
  throw: the persisted configurations are exactly the cases in which it does not throw.\<close>

lemma persisted_or_throws:
  "(\<exists>cfg. persisted h root cfg) \<or> (\<exists>e. loadRunConfig h root = Inl e)"
proof (cases "existsSync h (getConfigPath h root)")
  case False
  then have "persisted h root None" by (simp add: persisted_def)
  then show ?thesis by blast
next
  case True
  show ?thesis
  proof (cases "yaml_at h (getConfigPath h root)")
    case (YamlMapping d)
    show ?thesis
    proof (cases "KitweConfigSchema d")
      case None
      then show ?thesis
        using True YamlMapping by (simp add: loadRunConfig_def loadProjectConfig_def Let_def)
    next
      case (Some raw)
      then have "persisted h root (Some raw)" using True YamlMapping by (simp add: persisted_Some)
      then show ?thesis by blast
    qed
  qed (use True in \<open>simp_all add: loadRunConfig_def loadProjectConfig_def Let_def\<close>)
qed

lemma persisted_not_throws:
  "persisted h root cfg \<Longrightarrow> loadRunConfig h root \<noteq> Inl e"
  by (simp add: persisted_loads)

lemma unloadable_config_throws:
  "existsSync h (projectRoot spec) \<Longrightarrow> loadRunConfig h (projectRoot spec) = Inl e \<Longrightarrow>
   resolveRunSpec h spec = Inl e"
  by (simp add: resolveRunSpec_def)

text \<open>
  Claim C9. With a persisted configuration \<open>raw\<close> in the project root: when the caller's
  \<^verbatim>\<open>spec.skipSetup\<close> is true, no pre-commands are extracted at all; when it is not
  and the persisted \<^verbatim>\<open>run.skip_setup\<close> is true, the extracted pre-commands are exactly
  the run-phase \<^verbatim>\<open>run.pre_commands\<close>, in their order (each with its working directory
  resolved), and the \<^verbatim>\<open>setup.pre_commands\<close> are left out; when neither flag is set,
  the setup-phase commands come first and the run-phase commands after them.
\<close>

theorem skip_setup_asymmetry:
  assumes "persisted h (projectRoot spec) (Some raw)"
  shows "(skipSetup spec = Some True \<longrightarrow> extractPreCommands h spec = None)
       \<and> (skipSetup spec \<noteq> Some True \<and> raw_skip_setup (raw_run_section raw) \<longrightarrow>
            extractPreCommands h spec =
              (case raw_pre_commands (raw_run_section raw) of
                 None \<Rightarrow> None
               | Some cs \<Rightarrow>
                   if cs = [] then None
                   else Some (map (\<lambda>pc. \<lparr> pc_argv = pc_argv pc, pc_env = pc_env pc,
                                           pc_cwd = Some (resolveCwd h (pc_cwd pc) (projectRoot spec)) \<rparr>)
                                  cs)))
       \<and> (skipSetup spec \<noteq> Some True \<and> \<not> raw_skip_setup (raw_run_section raw) \<longrightarrow>
            getRunPreCommands h (projectRoot spec) =
              (case setup_pre_commands (raw_setup_section raw) of None \<Rightarrow> [] | Some cs \<Rightarrow> cs)
              @ (case raw_pre_commands (raw_run_section raw) of None \<Rightarrow> [] | Some cs \<Rightarrow> cs))"
proof -
  obtain d where E: "existsSync h (getConfigPath h (projectRoot spec))"
    and Y: "yaml_at h (getConfigPath h (projectRoot spec)) = YamlMapping d"
    and V: "KitweConfigSchema d = Some raw"
    using assms by (auto simp: persisted_Some)
  have G: "getRunPreCommands h (projectRoot spec) =
           (if \<not> raw_skip_setup (raw_run_section raw)
            then (case setup_pre_commands (raw_setup_section raw) of None \<Rightarrow> [] | Some cs \<Rightarrow> cs)
            else [])
           @ (case raw_pre_commands (raw_run_section raw) of None \<Rightarrow> [] | Some cs \<Rightarrow> cs)"
    by (rule getRunPreCommands_valid[OF E Y V])
  show ?thesis
  proof (intro conjI impI)
    show "extractPreCommands h spec = None" if "skipSetup spec = Some True"
      using that by (simp add: extractPreCommands_def)
  next
    assume A: "skipSetup spec \<noteq> Some True \<and> raw_skip_setup (raw_run_section raw)"
    then have G': "getRunPreCommands h (projectRoot spec) =
        (case raw_pre_commands (raw_run_section raw) of None \<Rightarrow> [] | Some cs \<Rightarrow> cs)"
      using G by simp
    show "extractPreCommands h spec =
              (case raw_pre_commands (raw_run_section raw) of
                 None \<Rightarrow> None
               | Some cs \<Rightarrow>
                   if cs = [] then None
                   else Some (map (\<lambda>pc. \<lparr> pc_argv = pc_argv pc, pc_env = pc_env pc,
                                           pc_cwd = Some (resolveCwd h (pc_cwd pc) (projectRoot spec)) \<rparr>)
                                  cs))"
      using A by (simp add: extractPreCommands_def G' Let_def split: option.split)
  next
    assume A: "skipSetup spec \<noteq> Some True \<and> \<not> raw_skip_setup (raw_run_section raw)"
    then show "getRunPreCommands h (projectRoot spec) =
              (case setup_pre_commands (raw_setup_section raw) of None \<Rightarrow> [] | Some cs \<Rightarrow> cs)
              @ (case raw_pre_commands (raw_run_section raw) of None \<Rightarrow> [] | Some cs \<Rightarrow> cs)"
      using G by simp
  qed
qed





lemma detect_yaml [simp]:
  "detectPackageManager (h\<lparr>yaml_at := y\<rparr>) root = detectPackageManager h root"
  by (simp add: detectPackageManager_def)



lemma resolveFromRunConfig_modes:
  "resolveFromRunConfig h rc spec =
     (if truthy (rc_script rc)
      then Some (IsCommand
             \<lparr> argv = (let runner = (case rc_runner rc of Some r \<Rightarrow> r
                                      | None \<Rightarrow> detectPackageManager h (projectRoot spec));
                           base = [runner_name runner, ''run'',
                                   (case rc_script rc of Some s \<Rightarrow> s | None \<Rightarrow> [])];
                           allArgs = given_args (rc_args rc) @ given_args (spec_args spec)
                       in if length allArgs > 0
                          then base @ (if runner = npm then [''--''] else []) @ allArgs
                          else base),
               cwd = projectRoot spec, mode = yaml_script, env = rc_env rc,
               preCommands = extractPreCommands h spec \<rparr>)
      else if truthy (rc_configPath rc)
      then (if existsSync h (path_resolve h (projectRoot spec)
                               (case rc_configPath rc of Some p \<Rightarrow> p | None \<Rightarrow> []))
            then Some (IsCommand
                   \<lparr> argv = [''npx'', ''playwright'', ''test'',
                              ''--config='' @ (case rc_configPath rc of Some p \<Rightarrow> p | None \<Rightarrow> [])]
                             @ (given_args (rc_args rc) @ given_args (spec_args spec)),
                     cwd = projectRoot spec, mode = yaml_config, env = rc_env rc,
                     preCommands = extractPreCommands h spec \<rparr>)
            else Some (IsError
                   \<lparr> errorType = ''config_not_found'',
                     message = ''Playwright config from kitwe.yaml not found: ''
                        @ path_resolve h (projectRoot spec)
                            (case rc_configPath rc of Some p \<Rightarrow> p | None \<Rightarrow> []) \<rparr>))
      else None)"
  by (simp add: resolveFromRunConfig_def Let_def)


lemmas example_defs =
  example_host_def example_spec_def example_config_def example_doc_def example_pre_def
  posix_resolve_def posix_join_def startsWith_def

lemmas schema_defs =
  KitweConfigSchema_def TestsConfigSchema_def SelectorPolicySchema_def z_language_def
  z_string_optional_def z_string_array_def

lemmas loader_defs =
  loadRunConfig_def loadProjectConfig_def getConfigPath_def getRunPreCommands_def
  extractPreCommands_def resolveCwd_def truthy_def

lemma example_doc_valid:
  "KitweConfigSchema (example_doc s c k a b None) = Some (example_config s c k a b None)"
  by (simp add: schema_defs example_doc_def example_config_def)



lemma KitweConfigSchema_sections:
  "KitweConfigSchema d = Some raw \<Longrightarrow>
     raw_version raw = doc_version d \<and> raw_setup_section raw = doc_setup d
     \<and> raw_run_section raw = doc_run d"
  by (auto simp: KitweConfigSchema_def)

lemma kc_run_sections:
  "raw_run_section a = raw_run_section b \<Longrightarrow>
   kc_run (convertToTypescript a) = kc_run (convertToTypescript b)"
  by (simp add: convertToTypescript_def)

lemma loadRunConfig_tests:
  assumes "KitweConfigSchema (d\<lparr>doc_tests := t1\<rparr>) \<noteq> None"
      and "KitweConfigSchema (d\<lparr>doc_tests := t2\<rparr>) \<noteq> None"
  shows "loadRunConfig (h\<lparr>yaml_at := (yaml_at h)(p := YamlMapping (d\<lparr>doc_tests := t1\<rparr>))\<rparr>) root
       = loadRunConfig (h\<lparr>yaml_at := (yaml_at h)(p := YamlMapping (d\<lparr>doc_tests := t2\<rparr>))\<rparr>) root"
proof -
  from assms obtain r1 r2 where 1: "KitweConfigSchema (d\<lparr>doc_tests := t1\<rparr>) = Some r1"
    and 2: "KitweConfigSchema (d\<lparr>doc_tests := t2\<rparr>) = Some r2" by auto
  have "raw_run_section r1 = raw_run_section r2"
    using KitweConfigSchema_sections[OF 1] KitweConfigSchema_sections[OF 2] by simp
  then have K: "kc_run (convertToTypescript r1) = kc_run (convertToTypescript r2)"
    by (rule kc_run_sections)
  show ?thesis
    using 1 2 K by (simp add: loadRunConfig_def loadProjectConfig_def getConfigPath_def Let_def)
qed

lemma getRunPreCommands_tests:
  assumes "KitweConfigSchema (d\<lparr>doc_tests := t1\<rparr>) \<noteq> None"
      and "KitweConfigSchema (d\<lparr>doc_tests := t2\<rparr>) \<noteq> None"
  shows "getRunPreCommands (h\<lparr>yaml_at := (yaml_at h)(p := YamlMapping (d\<lparr>doc_tests := t1\<rparr>))\<rparr>) root
       = getRunPreCommands (h\<lparr>yaml_at := (yaml_at h)(p := YamlMapping (d\<lparr>doc_tests := t2\<rparr>))\<rparr>) root"
proof -
  from assms obtain r1 r2 where 1: "KitweConfigSchema (d\<lparr>doc_tests := t1\<rparr>) = Some r1"
    and 2: "KitweConfigSchema (d\<lparr>doc_tests := t2\<rparr>) = Some r2" by auto
  have "raw_run_section r1 = raw_run_section r2" "raw_setup_section r1 = raw_setup_section r2"
    using KitweConfigSchema_sections[OF 1] KitweConfigSchema_sections[OF 2] by simp_all
  then show ?thesis
    using 1 2 by (simp add: getRunPreCommands_def getConfigPath_def Let_def)
qed

lemma resolveCwd_yaml [simp]:
  "resolveCwd (h\<lparr>yaml_at := y\<rparr>) c root = resolveCwd h c root"
  by (cases c) (simp_all add: resolveCwd_def)

lemma yaml_view:
  assumes L: "loadRunConfig (h\<lparr>yaml_at := y1\<rparr>) (projectRoot spec)
                = loadRunConfig (h\<lparr>yaml_at := y2\<rparr>) (projectRoot spec)"
      and G: "getRunPreCommands (h\<lparr>yaml_at := y1\<rparr>) (projectRoot spec)
                = getRunPreCommands (h\<lparr>yaml_at := y2\<rparr>) (projectRoot spec)"
  shows "resolveRunSpec (h\<lparr>yaml_at := y1\<rparr>) spec = resolveRunSpec (h\<lparr>yaml_at := y2\<rparr>) spec"
proof -
  have X: "extractPreCommands (h\<lparr>yaml_at := y1\<rparr>) spec = extractPreCommands (h\<lparr>yaml_at := y2\<rparr>) spec"
    by (simp add: extractPreCommands_def G Let_def)
  have S: "resolveFromScript (h\<lparr>yaml_at := y1\<rparr>) spec = resolveFromScript (h\<lparr>yaml_at := y2\<rparr>) spec"
    by (cases "spec_runner spec") (simp_all add: resolveFromScript_def X Let_def)
  have C: "resolveFromConfig (h\<lparr>yaml_at := y1\<rparr>) spec = resolveFromConfig (h\<lparr>yaml_at := y2\<rparr>) spec"
    by (simp add: resolveFromConfig_def X Let_def)
  have R: "resolveFromRunConfig (h\<lparr>yaml_at := y1\<rparr>) rc spec
             = resolveFromRunConfig (h\<lparr>yaml_at := y2\<rparr>) rc spec" for rc
    by (cases "rc_runner rc") (simp_all add: resolveFromRunConfig_def X Let_def)
  show ?thesis
    by (simp add: resolveRunSpec_def L S C R split: sum.split option.split)
qed

text \<open>A tests section that the schema rejects makes the resolver throw, whatever the
  specification asks for, once the project root and the kitwe.yaml exist.\<close>

lemma invalid_tests_section_throws:
  assumes "existsSync h (projectRoot spec)"
      and "existsSync h (getConfigPath h (projectRoot spec))"
      and "yaml_at h (getConfigPath h (projectRoot spec)) = YamlMapping d"
      and "KitweConfigSchema d = None"
  shows "resolveRunSpec h spec = Inl (ConfigValidationError (getConfigPath h (projectRoot spec)))"
  using assms by (simp add: resolveRunSpec_def loadRunConfig_def loadProjectConfig_def Let_def)

text \<open>Claim C5 as stated fails: two kitwe.yaml files that differ only in
  \<^verbatim>\<open>tests.test_dir\<close>, a string in the first and a number in the second: the first resolves to the persisted script, the second
  makes the resolver throw.\<close>

theorem tests_test_dir_changes_resolution:
  "resolveRunSpec
     (example_host [''/proj'', ''/proj/kitwe.yaml'']
        (YamlMapping (example_doc (Some ''yaml:e2e'') None False None None
                        (Some (YMap [(''test_dir'', YStr ''e2e'')]))))
        (\<lambda>d. None) (\<lambda>n. SpawnThrows []))
     (example_spec None None None None)
   = Inr (IsCommand \<lparr> argv = [''npm'', ''run'', ''yaml:e2e''], cwd = ''/proj'',
                       mode = yaml_script, env = None, preCommands = None \<rparr>)
   \<and> resolveRunSpec
     (example_host [''/proj'', ''/proj/kitwe.yaml'']
        (YamlMapping (example_doc (Some ''yaml:e2e'') None False None None
                        (Some (YMap [(''test_dir'', YNum 42)]))))
        (\<lambda>d. None) (\<lambda>n. SpawnThrows []))
     (example_spec None None None None)
   = Inl (ConfigValidationError ''/proj/kitwe.yaml'')"
  by (simp add: resolveRunSpec_def resolveFromRunConfig_def detectPackageManager_def
        convertToTypescript_def given_args_def no_entrypoint_def Let_def
        example_defs loader_defs schema_defs)

text \<open>
  Claim C5, as amended. Two kitwe.yaml documents that differ only in their tests section
  (test directory, pattern, language, selector policy, or the section being absent), both
  of which pass the schema, stored at any path \<open>p\<close> of an otherwise equal host, give the
  same resolution for every specification: the same command (argv, mode, working
  directory, environment, pre-commands) or the same error.
\<close>

theorem tests_config_isolation:
  assumes "KitweConfigSchema (d\<lparr>doc_tests := t1\<rparr>) \<noteq> None"
      and "KitweConfigSchema (d\<lparr>doc_tests := t2\<rparr>) \<noteq> None"
  shows "resolveRunSpec (h\<lparr>yaml_at := (yaml_at h)(p := YamlMapping (d\<lparr>doc_tests := t1\<rparr>))\<rparr>) spec
       = resolveRunSpec (h\<lparr>yaml_at := (yaml_at h)(p := YamlMapping (d\<lparr>doc_tests := t2\<rparr>))\<rparr>) spec"
  by (rule yaml_view) (rule loadRunConfig_tests[OF assms], rule getRunPreCommands_tests[OF assms])

theorem skip_setup_asymmetry_witness:
  "extractPreCommands
     (example_host [''/proj'', ''/proj/kitwe.yaml'']
        (YamlMapping (example_doc (Some ''test:e2e'') None True
                        (Some [example_pre [''npm'', ''run'', ''db:reset'']])
                        (Some [example_pre [''npm'', ''run'', ''db:seed'']]) None))
        (\<lambda>d. None) (\<lambda>n. SpawnThrows []))
     (example_spec None None None (Some True)) = None
   \<and> extractPreCommands
     (example_host [''/proj'', ''/proj/kitwe.yaml'']
        (YamlMapping (example_doc (Some ''test:e2e'') None True
                        (Some [example_pre [''npm'', ''run'', ''db:reset'']])
                        (Some [example_pre [''npm'', ''run'', ''db:seed'']]) None))
        (\<lambda>d. None) (\<lambda>n. SpawnThrows []))
     (example_spec None None None (Some False))
     = Some [\<lparr> pc_argv = [''npm'', ''run'', ''db:seed''], pc_env = None, pc_cwd = Some ''/proj'' \<rparr>]"
proof -
  let ?raw = "example_config (Some ''test:e2e'') None True
                      (Some [example_pre [''npm'', ''run'', ''db:reset'']])
                      (Some [example_pre [''npm'', ''run'', ''db:seed'']]) None"
  let ?doc = "example_doc (Some ''test:e2e'') None True
                      (Some [example_pre [''npm'', ''run'', ''db:reset'']])
                      (Some [example_pre [''npm'', ''run'', ''db:seed'']]) None"
  let ?H = "example_host [''/proj'', ''/proj/kitwe.yaml''] (YamlMapping ?doc)
              (\<lambda>d. None) (\<lambda>n. SpawnThrows [])"
  have E: "existsSync ?H (getConfigPath ?H (projectRoot (example_spec None None None s)))" for s
    by (simp add: example_defs getConfigPath_def)
  have Y: "yaml_at ?H (getConfigPath ?H (projectRoot (example_spec None None None s))) = YamlMapping ?doc" for s
    by (simp add: example_host_def)
  have P: "persisted ?H (projectRoot (example_spec None None None s)) (Some ?raw)" for s
    unfolding persisted_Some using E Y example_doc_valid by blast
  note A = skip_setup_asymmetry[OF P, of "Some True"]
  note B = skip_setup_asymmetry[OF P, of "Some False"]
  have 1: "extractPreCommands ?H (example_spec None None None (Some True)) = None"
    using A by (simp add: example_spec_def)
  have 2: "extractPreCommands ?H (example_spec None None None (Some False))
     = Some [\<lparr> pc_argv = [''npm'', ''run'', ''db:seed''], pc_env = None, pc_cwd = Some ''/proj'' \<rparr>]"
    using B by (simp add: example_spec_def example_config_def example_pre_def resolveCwd_def truthy_def)
  show ?thesis using 1 2 by simp
qed



theorem tests_config_isolation_witness:
  "resolveRunSpec
     ((example_host [''/proj'', ''/proj/kitwe.yaml''] YamlEmpty (\<lambda>d. None) (\<lambda>n. SpawnThrows []))
        \<lparr>yaml_at := (yaml_at (example_host [''/proj'', ''/proj/kitwe.yaml''] YamlEmpty (\<lambda>d. None)
                                  (\<lambda>n. SpawnThrows [])))
             (''/proj/kitwe.yaml'' :=
                YamlMapping ((example_doc (Some ''yaml:e2e'') None False None None None)
                               \<lparr>doc_tests := Some (YMap [(''test_dir'', YStr ''e2e'')])\<rparr>))\<rparr>)
     (example_spec None None None None)
   = resolveRunSpec
     ((example_host [''/proj'', ''/proj/kitwe.yaml''] YamlEmpty (\<lambda>d. None) (\<lambda>n. SpawnThrows []))
        \<lparr>yaml_at := (yaml_at (example_host [''/proj'', ''/proj/kitwe.yaml''] YamlEmpty (\<lambda>d. None)
                                  (\<lambda>n. SpawnThrows [])))
             (''/proj/kitwe.yaml'' :=
                YamlMapping ((example_doc (Some ''yaml:e2e'') None False None None None)
                               \<lparr>doc_tests := Some (YMap [(''test_dir'', YStr ''tests''),
                                                         (''pattern'', YStr ''**/*.spec.ts'')])\<rparr>))\<rparr>)
     (example_spec None None None None)
   \<and> resolveRunSpec
     ((example_host [''/proj'', ''/proj/kitwe.yaml''] YamlEmpty (\<lambda>d. None) (\<lambda>n. SpawnThrows []))
        \<lparr>yaml_at := (yaml_at (example_host [''/proj'', ''/proj/kitwe.yaml''] YamlEmpty (\<lambda>d. None)
                                  (\<lambda>n. SpawnThrows [])))
             (''/proj/kitwe.yaml'' :=
                YamlMapping ((example_doc (Some ''yaml:e2e'') None False None None None)
                               \<lparr>doc_tests := Some (YMap [(''test_dir'', YStr ''tests''),
                                                         (''pattern'', YStr ''**/*.spec.ts'')])\<rparr>))\<rparr>)
     (example_spec None None None None)
   = Inr (IsCommand \<lparr> argv = [''npm'', ''run'', ''yaml:e2e''], cwd = ''/proj'',
                       mode = yaml_script, env = None, preCommands = None \<rparr>)"
proof (rule conjI)
  show "resolveRunSpec
     ((example_host [''/proj'', ''/proj/kitwe.yaml''] YamlEmpty (\<lambda>d. None) (\<lambda>n. SpawnThrows []))
        \<lparr>yaml_at := (yaml_at (example_host [''/proj'', ''/proj/kitwe.yaml''] YamlEmpty (\<lambda>d. None)
                                  (\<lambda>n. SpawnThrows [])))
             (''/proj/kitwe.yaml'' :=
                YamlMapping ((example_doc (Some ''yaml:e2e'') None False None None None)
                               \<lparr>doc_tests := Some (YMap [(''test_dir'', YStr ''e2e'')])\<rparr>))\<rparr>)
     (example_spec None None None None)
   = resolveRunSpec
     ((example_host [''/proj'', ''/proj/kitwe.yaml''] YamlEmpty (\<lambda>d. None) (\<lambda>n. SpawnThrows []))
        \<lparr>yaml_at := (yaml_at (example_host [''/proj'', ''/proj/kitwe.yaml''] YamlEmpty (\<lambda>d. None)
                                  (\<lambda>n. SpawnThrows [])))
             (''/proj/kitwe.yaml'' :=
                YamlMapping ((example_doc (Some ''yaml:e2e'') None False None None None)
                               \<lparr>doc_tests := Some (YMap [(''test_dir'', YStr ''tests''),
                                                         (''pattern'', YStr ''**/*.spec.ts'')])\<rparr>))\<rparr>)
     (example_spec None None None None)"
    by (rule tests_config_isolation) (simp_all add: schema_defs)
  show "resolveRunSpec
     ((example_host [''/proj'', ''/proj/kitwe.yaml''] YamlEmpty (\<lambda>d. None) (\<lambda>n. SpawnThrows []))
        \<lparr>yaml_at := (yaml_at (example_host [''/proj'', ''/proj/kitwe.yaml''] YamlEmpty (\<lambda>d. None)
                                  (\<lambda>n. SpawnThrows [])))
             (''/proj/kitwe.yaml'' :=
                YamlMapping ((example_doc (Some ''yaml:e2e'') None False None None None)
                               \<lparr>doc_tests := Some (YMap [(''test_dir'', YStr ''tests''),
                                                         (''pattern'', YStr ''**/*.spec.ts'')])\<rparr>))\<rparr>)
     (example_spec None None None None)
   = Inr (IsCommand \<lparr> argv = [''npm'', ''run'', ''yaml:e2e''], cwd = ''/proj'',
                       mode = yaml_script, env = None, preCommands = None \<rparr>)"
    by (simp add: resolveRunSpec_def resolveFromRunConfig_def detectPackageManager_def
          convertToTypescript_def given_args_def no_entrypoint_def Let_def
          example_defs loader_defs schema_defs)
qed

section \<open>Injection of the reporter and trace flags\<close>

lemma str_includes_sublist: "str_includes s t \<longleftrightarrow> sublist t s"
proof (induction s)
  case Nil
  then show ?case by simp
next
  case (Cons c cs)
  then show ?case by (simp add: sublist_Cons_right)
qed

lemma join_with_append:
  "xs \<noteq> [] \<Longrightarrow> ys \<noteq> [] \<Longrightarrow>
   join_with sep (xs @ ys) = join_with sep xs @ sep @ join_with sep ys"
proof (induction sep xs rule: join_with.induct)
  case (1 sep)
  then show ?case by simp
next
  case (2 sep x)
  then show ?case by (cases ys) simp_all
next
  case (3 sep x y ys')
  then show ?case by simp
qed

lemma includes_join_prefix:
  assumes "str_includes (join_with sep xs) t"
  shows "str_includes (join_with sep (xs @ ys)) t"
proof (cases "xs = [] \<or> ys = []")
  case True
  then show ?thesis
  proof
    assume "xs = []"
    with assms have "t = []" by simp
    then show ?thesis by (simp add: str_includes_sublist)
  next
    assume "ys = []"
    then show ?thesis using assms by simp
  qed
next
  case False
  then show ?thesis
    using assms by (simp add: join_with_append str_includes_sublist sublist_append)
qed

lemma includes_join_last:
  assumes "str_includes y t"
  shows "str_includes (join_with sep (xs @ [y])) t"
proof (cases "xs = []")
  case True
  then show ?thesis using assms by simp
next
  case False
  then show ?thesis
    using assms by (simp add: join_with_append str_includes_sublist sublist_append)
qed

lemma includes_join_mem:
  assumes "y \<in> set xs" and "str_includes y t"
  shows "str_includes (join_with sep xs) t"
proof -
  from assms(1) obtain as bs where "xs = (as @ [y]) @ bs" by (auto simp: in_set_conv_decomp)
  then show ?thesis
    using includes_join_prefix[OF includes_join_last[OF assms(2), of sep as], of bs] by simp
qed

lemma reporter_flag: "str_includes ''--reporter=list'' ''--reporter''"
  by code_simp

lemma trace_flag: "str_includes ''--trace=retain-on-failure'' ''--trace''"
  by code_simp

lemma prepare_closed_form:
  "prepareCommandWithReporter r =
     argv r
     @ (if flagsToInject (argv r) \<noteq> [] \<and> mode r \<in> {yaml_script, cli_script}
           \<and> ''--'' \<notin> set (argv r) then [''--''] else [])
     @ flagsToInject (argv r)"
  by (cases "mode r") (simp_all add: prepareCommandWithReporter_def flagsToInject_def Let_def Let_def)

lemma flagsToInject_after:
  "flagsToInject (a @ s @ flagsToInject a) = []"
proof -
  have R: "str_includes (join_with '' '' (a @ s @ flagsToInject a)) ''--reporter''"
  proof (cases "str_includes (join_with '' '' a) ''--reporter''")
    case True
    then show ?thesis by (rule includes_join_prefix)
  next
    case False
    then have "''--reporter=list'' \<in> set (a @ s @ flagsToInject a)"
      by (simp add: flagsToInject_def Let_def)
    then show ?thesis by (rule includes_join_mem) (rule reporter_flag)
  qed
  have T: "str_includes (join_with '' '' (a @ s @ flagsToInject a)) ''--trace''"
  proof (cases "str_includes (join_with '' '' a) ''--trace''")
    case True
    then show ?thesis by (rule includes_join_prefix)
  next
    case False
    then have "''--trace=retain-on-failure'' \<in> set (a @ s @ flagsToInject a)"
      by (simp add: flagsToInject_def Let_def)
    then show ?thesis by (rule includes_join_mem) (rule trace_flag)
  qed
  show ?thesis
    unfolding flagsToInject_def[of "a @ s @ flagsToInject a"] using R T by simp
qed

text \<open>
  Claim C6. Augmentation is idempotent: applied to its own result it changes nothing.
  It is presence-guarded: the result is the argv, followed by the separator where needed,
  followed by the flags to inject, and the reporter flag (the trace flag) is among these
  exactly when the joined argv does not contain the substring \<open>--reporter\<close>
  (\<open>--trace\<close>). So an argv that already mentions \<open>--reporter\<close> gets no further
  \<open>--reporter=list\<close>.
\<close>

theorem augmentation_idempotent:
  "prepareCommandWithReporter (r\<lparr>argv := prepareCommandWithReporter r\<rparr>)
     = prepareCommandWithReporter r
   \<and> prepareCommandWithReporter r =
       argv r
       @ (if flagsToInject (argv r) \<noteq> [] \<and> mode r \<in> {yaml_script, cli_script}
             \<and> ''--'' \<notin> set (argv r) then [''--''] else [])
       @ flagsToInject (argv r)
   \<and> (''--reporter=list'' \<in> set (flagsToInject (argv r))
        \<longleftrightarrow> \<not> str_includes (join_with '' '' (argv r)) ''--reporter'')
   \<and> (''--trace=retain-on-failure'' \<in> set (flagsToInject (argv r))
        \<longleftrightarrow> \<not> str_includes (join_with '' '' (argv r)) ''--trace'')
   \<and> (str_includes (join_with '' '' (argv r)) ''--reporter'' \<longrightarrow>
        count_list (prepareCommandWithReporter r) ''--reporter=list''
          = count_list (argv r) ''--reporter=list'')"
proof (intro conjI impI)
  show "prepareCommandWithReporter (r\<lparr>argv := prepareCommandWithReporter r\<rparr>)
     = prepareCommandWithReporter r"
    unfolding prepare_closed_form[of "r\<lparr>argv := prepareCommandWithReporter r\<rparr>"]
    by (simp add: prepare_closed_form[of r] flagsToInject_after)
  show "prepareCommandWithReporter r =
       argv r
       @ (if flagsToInject (argv r) \<noteq> [] \<and> mode r \<in> {yaml_script, cli_script}
             \<and> ''--'' \<notin> set (argv r) then [''--''] else [])
       @ flagsToInject (argv r)"
    by (rule prepare_closed_form)
  show "''--reporter=list'' \<in> set (flagsToInject (argv r))
        \<longleftrightarrow> \<not> str_includes (join_with '' '' (argv r)) ''--reporter''"
    by (simp add: flagsToInject_def Let_def)
  show "''--trace=retain-on-failure'' \<in> set (flagsToInject (argv r))
        \<longleftrightarrow> \<not> str_includes (join_with '' '' (argv r)) ''--trace''"
    by (simp add: flagsToInject_def Let_def)
  show "count_list (prepareCommandWithReporter r) ''--reporter=list''
          = count_list (argv r) ''--reporter=list''"
    if "str_includes (join_with '' '' (argv r)) ''--reporter''"
    using that by (simp add: prepare_closed_form flagsToInject_def Let_def)
qed


theorem augmentation_idempotent_witness:
  "prepareCommandWithReporter
     (example_command [''npx'', ''playwright'', ''test'', ''--reporter=html''] cli_config)
     = [''npx'', ''playwright'', ''test'', ''--reporter=html'', ''--trace=retain-on-failure'']
   \<and> prepareCommandWithReporter
     ((example_command [''npx'', ''playwright'', ''test'', ''--reporter=html''] cli_config)
        \<lparr>argv := [''npx'', ''playwright'', ''test'', ''--reporter=html'',
                   ''--trace=retain-on-failure'']\<rparr>)
     = [''npx'', ''playwright'', ''test'', ''--reporter=html'', ''--trace=retain-on-failure'']
   \<and> count_list (prepareCommandWithReporter
     (example_command [''npx'', ''playwright'', ''test'', ''--reporter=html''] cli_config))
       ''--reporter=list'' = 0"
proof -
  let ?r = "example_command [''npx'', ''playwright'', ''test'', ''--reporter=html''] cli_config"
  note T = augmentation_idempotent [of ?r]
  have R: "str_includes (join_with '' '' (argv ?r)) ''--reporter''"
    unfolding example_command_def by code_simp
  have N: "\<not> str_includes (join_with '' '' (argv ?r)) ''--trace''"
    unfolding example_command_def by code_simp
  have F: "flagsToInject (argv ?r) = [''--trace=retain-on-failure'']"
    using R N by (simp add: flagsToInject_def Let_def)
  have P: "prepareCommandWithReporter ?r
     = [''npx'', ''playwright'', ''test'', ''--reporter=html'', ''--trace=retain-on-failure'']"
    using T F by (simp add: example_command_def)
  have C: "count_list (prepareCommandWithReporter ?r) ''--reporter=list'' = 0"
    using T R by (simp add: example_command_def)
  from T have I: "prepareCommandWithReporter (?r\<lparr>argv := prepareCommandWithReporter ?r\<rparr>)
                    = prepareCommandWithReporter ?r"
    by (rule conjunct1)
  show ?thesis
    by (intro conjI) (rule P, rule I[unfolded P], rule C)
qed

section \<open>Pre-commands\<close>

lemma spawned_write_log [simp]: "spawned (write_log p w) = spawned w"
  by (cases p) (simp_all add: write_log_def)

lemma spawned_runCommand:
  "map sp_args (spawned (snd (runCommand h a opts w)))
     = map sp_args (spawned w) @ [[''-l'', ''-c'', join_with '' '' a]]"
  by (cases "proc h (length (spawned w))") (simp_all add: runCommand_def Let_def)

lemma length_spawned_runCommand:
  "length (spawned (snd (runCommand h a opts w))) = Suc (length (spawned w))"
  by (cases "proc h (length (spawned w))") (simp_all add: runCommand_def Let_def)

lemma runCommand_exit:
  "fst (runCommand h a opts w) =
     (case proc h (length (spawned w)) of
        SpawnThrows m \<Rightarrow> Inl m
      | ErrorEvent m out \<Rightarrow>
          Inr \<lparr> cr_exitCode = None, cr_stdout = out_stdout out,
                 cr_stderr = out_stderr out @ nl @ m, cr_timedOut = False,
                 cr_durationMs = out_durationMs out \<rparr>
      | CloseEvent code fired out \<Rightarrow>
          Inr \<lparr> cr_exitCode = code, cr_stdout = out_stdout out, cr_stderr = out_stderr out,
                 cr_timedOut = fired, cr_durationMs = out_durationMs out \<rparr>)"
  by (cases "proc h (length (spawned w))") (simp_all add: runCommand_def Let_def)

text \<open>One turn of the loop of \<open>runPreCommands\<close>.\<close>

lemma pre_step:
  "runPreCommands_from h (pc # rest) i n e l w =
     (let w2 = snd (runCommand h (pc_argv pc)
                \<lparr> opt_cwd = (case pc_cwd pc of Some c \<Rightarrow> c | None \<Rightarrow> process_cwd h),
                  opt_env = (case pc_env pc of None \<Rightarrow> e | Some x \<Rightarrow> e ++ x),
                  opt_timeoutMs = PRE_COMMAND_TIMEOUT_MS,
                  opt_logPath = Some (pre_log_path h l i) \<rparr>
                (onProgress ''pre_command''
                   (''['' @ show_nat (i + 1) @ ''/'' @ show_nat n @ ''] ''
                      @ join_with '' '' (pc_argv pc)) w))
      in if pre_ok (proc h (length (spawned w)))
         then runPreCommands_from h rest (i + 1) n e l w2
         else (\<lparr> pre_success = False,
                  pre_error = Some (pre_failure_text i (join_with '' '' (pc_argv pc))
                                      (pre_log_path h l i) (proc h (length (spawned w)))),
                  pre_logPath = Some (pre_log_path h l i) \<rparr>, w2))"
proof (cases "proc h (length (spawned w))")
  case (SpawnThrows m)
  then show ?thesis
    by (simp add: runCommand_def Let_def spawned_onProgress pre_ok_def pre_failure_text_def
          pre_error_message_def)
next
  case (ErrorEvent m out)
  then show ?thesis
    by (simp add: runCommand_def Let_def spawned_onProgress pre_ok_def pre_failure_text_def
          pre_failed_message_def show_exit_code_def)
next
  case (CloseEvent code fired out)
  then show ?thesis
    by (simp add: runCommand_def Let_def spawned_onProgress pre_ok_def pre_failure_text_def
          pre_failed_message_def)
qed

lemma pre_from_fail:
  assumes "k < length pcs"
      and "\<forall>j<k. pre_ok (proc h (length (spawned w) + j))"
      and "\<not> pre_ok (proc h (length (spawned w) + k))"
  shows "fst (runPreCommands_from h pcs i n e l w) =
           \<lparr> pre_success = False,
             pre_error = Some (pre_failure_text (i + k) (join_with '' '' (pc_argv (pcs ! k)))
                                 (pre_log_path h l (i + k)) (proc h (length (spawned w) + k))),
             pre_logPath = Some (pre_log_path h l (i + k)) \<rparr>
       \<and> map sp_args (spawned (snd (runPreCommands_from h pcs i n e l w)))
           = map sp_args (spawned w)
             @ map (\<lambda>pc. [''-l'', ''-c'', join_with '' '' (pc_argv pc)]) (take (Suc k) pcs)"
  using assms
proof (induction pcs arbitrary: k i w)
  case Nil
  then show ?case by simp
next
  case (Cons pc rest)
  let ?w2 = "snd (runCommand h (pc_argv pc)
                \<lparr> opt_cwd = (case pc_cwd pc of Some c \<Rightarrow> c | None \<Rightarrow> process_cwd h),
                  opt_env = (case pc_env pc of None \<Rightarrow> e | Some x \<Rightarrow> e ++ x),
                  opt_timeoutMs = PRE_COMMAND_TIMEOUT_MS,
                  opt_logPath = Some (pre_log_path h l i) \<rparr>
                (onProgress ''pre_command''
                   (''['' @ show_nat (i + 1) @ ''/'' @ show_nat n @ ''] ''
                      @ join_with '' '' (pc_argv pc)) w))"
  have L: "length (spawned ?w2) = Suc (length (spawned w))"
    by (simp add: length_spawned_runCommand spawned_onProgress)
  have M: "map sp_args (spawned ?w2)
             = map sp_args (spawned w) @ [[''-l'', ''-c'', join_with '' '' (pc_argv pc)]]"
    by (simp add: spawned_runCommand spawned_onProgress)
  show ?case
  proof (cases k)
    case 0
    then have "\<not> pre_ok (proc h (length (spawned w)))" using Cons.prems(3) by simp
    then show ?thesis using 0 M by (simp add: pre_step Let_def del: runPreCommands_from.simps)
  next
    case (Suc k')
    have ok0: "pre_ok (proc h (length (spawned w)))"
      using Cons.prems(2) Suc by (metis add.right_neutral zero_less_Suc)
    have 1: "k' < length rest" using Cons.prems(1) Suc by simp
    have 2: "\<forall>j<k'. pre_ok (proc h (length (spawned ?w2) + j))"
    proof (intro allI impI)
      fix j assume "j < k'"
      then have "Suc j < k" using Suc by simp
      then have "pre_ok (proc h (length (spawned w) + Suc j))" using Cons.prems(2) by blast
      then show "pre_ok (proc h (length (spawned ?w2) + j))" unfolding L by simp
    qed
    have 3: "\<not> pre_ok (proc h (length (spawned ?w2) + k'))"
      using Cons.prems(3) Suc unfolding L by simp
    from Cons.IH[OF 1 2 3, of "i + 1"]
    show ?thesis
      using ok0 Suc M L by (simp add: pre_step Let_def del: runPreCommands_from.simps)
  qed
qed

lemma pre_from_success:
  assumes "\<forall>j<length pcs. pre_ok (proc h (length (spawned w) + j))"
  shows "pre_success (fst (runPreCommands_from h pcs i n e l w))
       \<and> map sp_args (spawned (snd (runPreCommands_from h pcs i n e l w)))
           = map sp_args (spawned w)
             @ map (\<lambda>pc. [''-l'', ''-c'', join_with '' '' (pc_argv pc)]) pcs"
  using assms
proof (induction pcs arbitrary: i w)
  case Nil
  then show ?case by simp
next
  case (Cons pc rest)
  let ?w2 = "snd (runCommand h (pc_argv pc)
                \<lparr> opt_cwd = (case pc_cwd pc of Some c \<Rightarrow> c | None \<Rightarrow> process_cwd h),
                  opt_env = (case pc_env pc of None \<Rightarrow> e | Some x \<Rightarrow> e ++ x),
                  opt_timeoutMs = PRE_COMMAND_TIMEOUT_MS,
                  opt_logPath = Some (pre_log_path h l i) \<rparr>
                (onProgress ''pre_command''
                   (''['' @ show_nat (i + 1) @ ''/'' @ show_nat n @ ''] ''
                      @ join_with '' '' (pc_argv pc)) w))"
  have L: "length (spawned ?w2) = Suc (length (spawned w))"
    by (simp add: length_spawned_runCommand spawned_onProgress)
  have M: "map sp_args (spawned ?w2)
             = map sp_args (spawned w) @ [[''-l'', ''-c'', join_with '' '' (pc_argv pc)]]"
    by (simp add: spawned_runCommand spawned_onProgress)
  have ok0: "pre_ok (proc h (length (spawned w)))"
    using Cons.prems by (metis add.right_neutral length_greater_0_conv list.distinct(1))
  have 2: "\<forall>j<length rest. pre_ok (proc h (length (spawned ?w2) + j))"
  proof (intro allI impI)
    fix j assume "j < length rest"
    then have "Suc j < length (pc # rest)" by simp
    then have "pre_ok (proc h (length (spawned w) + Suc j))" using Cons.prems by blast
    then show "pre_ok (proc h (length (spawned ?w2) + j))" unfolding L by simp
  qed
  from Cons.IH[OF 2, of "i + 1"]
  show ?case using ok0 M by (simp add: pre_step Let_def del: runPreCommands_from.simps)
qed

lemma pre_failure_text_nonempty: "pre_failure_text i c l p \<noteq> []"
  by (cases p) (simp_all add: pre_failure_text_def)

lemma runFromResolve_with_pre:
  assumes R: "resolveRunSpec h spec = Inr (IsCommand resolved)"
      and P: "preCommands resolved = Some pcs"
      and N: "pcs \<noteq> []"
  shows "runFromResolve h spec w =
     (let logsDir = path_join h (path_resolve h (projectRoot spec) (artifactsDir spec)) ''logs'';
          runEnv = buildRunEnv (process_env h) (spec_env spec) (env resolved);
          pr = runPreCommands_from h pcs 0 (length pcs) runEnv logsDir
                 (onProgress ''setup''
                    (''Running '' @ show_nat (length pcs) @ '' setup command(s)...'')
                    (onProgress ''resolve'' ''Resolving test command...'' w))
      in if \<not> pre_success (fst pr)
         then (Inr (createErrorResult h ''pre_command_failed''
                      (if truthy (pre_error (fst pr))
                       then (case pre_error (fst pr) of Some m \<Rightarrow> m | None \<Rightarrow> ''Pre-command failed'')
                       else ''Pre-command failed'')), snd pr)
         else (Inr (fst (runMain h spec resolved runEnv logsDir (snd pr))),
               snd (runMain h spec resolved runEnv logsDir (snd pr))))"
  using N by (simp add: runFromResolve_def R P Let_def runPreCommands_def split_beta)

lemma runFromResolve_pre_failure:
  assumes R: "resolveRunSpec h spec = Inr (IsCommand resolved)"
      and P: "preCommands resolved = Some pcs"
      and K: "k < length pcs"
      and OK: "\<forall>j<k. pre_ok (proc h (length (spawned w) + j))"
      and F: "\<not> pre_ok (proc h (length (spawned w) + k))"
  shows "fst (runFromResolve h spec w) =
           Inr (createErrorResult h ''pre_command_failed''
                  (pre_failure_text k (join_with '' '' (pc_argv (pcs ! k)))
                     (pre_log_path h
                        (path_join h (path_resolve h (projectRoot spec) (artifactsDir spec)) ''logs'') k)
                     (proc h (length (spawned w) + k))))
       \<and> map sp_args (spawned (snd (runFromResolve h spec w)))
           = map sp_args (spawned w)
             @ map (\<lambda>pc. [''-l'', ''-c'', join_with '' '' (pc_argv pc)]) (take (Suc k) pcs)"
proof -
  let ?w1 = "onProgress ''setup''
                    (''Running '' @ show_nat (length pcs) @ '' setup command(s)...'')
                    (onProgress ''resolve'' ''Resolving test command...'' w)"
  have S: "spawned ?w1 = spawned w" by (simp add: spawned_onProgress)
  have N: "pcs \<noteq> []" using K by auto
  note X = pre_from_fail[where w = ?w1 and h = h and pcs = pcs and k = k and i = 0, unfolded S, OF K OK F]
  show ?thesis
    unfolding runFromResolve_with_pre[OF R P N] Let_def
    using X by (simp add: truthy_def pre_failure_text_nonempty)
qed

lemma spawned_runMain:
  "map sp_args (spawned (snd (runMain h spec resolved runEnv logsDir w)))
     = map sp_args (spawned w)
       @ [[''-l'', ''-c'', join_with '' '' (prepareCommandWithReporter resolved)]]"
  by (cases "proc h (length (spawned w))")
     (simp_all add: runMain_def runCommand_def writeFileSync_def Let_def spawned_onProgress
        onProgress_def write_log_def truthy_def split: option.split)

lemma runFromResolve_pre_success:
  assumes R: "resolveRunSpec h spec = Inr (IsCommand resolved)"
      and P: "preCommands resolved = Some pcs"
      and N: "pcs \<noteq> []"
      and OK: "\<forall>j<length pcs. pre_ok (proc h (length (spawned w) + j))"
      and M: "proc h (length (spawned w) + length pcs) = CloseEvent code fired out"
      and W1: "write_throws h
                 (path_join h (path_join h (path_resolve h (projectRoot spec) (artifactsDir spec)) ''logs'')
                    ''stdout.log'') = None"
      and W2: "write_throws h
                 (path_join h (path_join h (path_resolve h (projectRoot spec) (artifactsDir spec)) ''logs'')
                    ''stderr.log'') = None"
  shows "(case fst (runFromResolve h spec w) of
            Inr r \<Rightarrow> rr_status r = deriveStatus \<lparr> cr_exitCode = code, cr_stdout = out_stdout out,
                                    cr_stderr = out_stderr out, cr_timedOut = fired,
                                    cr_durationMs = out_durationMs out \<rparr>
          | Inl x \<Rightarrow> False)
       \<and> map sp_args (spawned (snd (runFromResolve h spec w)))
           = map sp_args (spawned w)
             @ map (\<lambda>pc. [''-l'', ''-c'', join_with '' '' (pc_argv pc)]) pcs
             @ [[''-l'', ''-c'', join_with '' '' (prepareCommandWithReporter resolved)]]"
proof -
  let ?logs = "path_join h (path_resolve h (projectRoot spec) (artifactsDir spec)) ''logs''"
  let ?env = "buildRunEnv (process_env h) (spec_env spec) (env resolved)"
  define w1 where "w1 = onProgress ''setup''
                    (''Running '' @ show_nat (length pcs) @ '' setup command(s)...'')
                    (onProgress ''resolve'' ''Resolving test command...'' w)"
  define pr where "pr = runPreCommands_from h pcs 0 (length pcs) ?env ?logs w1"
  have S: "spawned w1 = spawned w" by (simp add: w1_def spawned_onProgress)
  note X = pre_from_success[where w = w1 and h = h and pcs = pcs and i = 0 and n = "length pcs"
                              and e = ?env and l = ?logs, unfolded S, OF OK, folded pr_def]
  have L: "length (spawned (snd pr)) = length (spawned w) + length pcs"
    using X[THEN conjunct2, THEN arg_cong, of length] by simp
  have C: "fst (runCommand h a opts (onProgress s d (snd pr))) =
     Inr \<lparr> cr_exitCode = code, cr_stdout = out_stdout out, cr_stderr = out_stderr out,
           cr_timedOut = fired, cr_durationMs = out_durationMs out \<rparr>" for a opts s d
    by (rule runCommand_close) (unfold spawned_onProgress L, rule M)
  have St: "rr_status (fst (runMain h spec resolved ?env ?logs (snd pr)))
              = deriveStatus \<lparr> cr_exitCode = code, cr_stdout = out_stdout out,
                                    cr_stderr = out_stderr out, cr_timedOut = fired,
                                    cr_durationMs = out_durationMs out \<rparr>"
    by (simp add: runMain_result C W1 W2 assembleResult_def)
  show ?thesis
    unfolding runFromResolve_with_pre[OF R P N] Let_def w1_def[symmetric] pr_def[symmetric]
    using X St by (simp add: spawned_runMain)
qed


text \<open>The same for \<open>runValidate\<close>, which creates the two directories first.\<close>

lemma createErrorResult_with_dirs [simp]:
  "createErrorResult (with_dirs h spec) t m = createErrorResult h t m"
  by (simp add: createErrorResult_def)

lemma pre_log_path_with_dirs [simp]:
  "pre_log_path (with_dirs h spec) l i = pre_log_path h l i"
  by (simp add: pre_log_path_def)

lemma runValidate_fst_snd:
  assumes "mkdir_throws h (path_join h (path_resolve h (projectRoot spec) (artifactsDir spec)) ''logs'')
             = None"
      and "mkdir_throws h (path_join h (path_resolve h (projectRoot spec) (artifactsDir spec)) ''reports'')
             = None"
  shows "fst (runValidate h spec w) =
           (case fst (runFromResolve (with_dirs h spec) spec w) of
              Inl e \<Rightarrow> Inl (ConfigError e) | Inr r \<Rightarrow> Inr r)"
    and "snd (runValidate h spec w) = snd (runFromResolve (with_dirs h spec) spec w)"
  unfolding runValidate_dirs[OF assms]
  by (cases "runFromResolve (with_dirs h spec) spec w";
      cases "fst (runFromResolve (with_dirs h spec) spec w)"; simp)+

lemma runValidate_pre_failure:
  assumes D1: "mkdir_throws h (path_join h (path_resolve h (projectRoot spec) (artifactsDir spec)) ''logs'')
             = None"
      and D2: "mkdir_throws h (path_join h (path_resolve h (projectRoot spec) (artifactsDir spec)) ''reports'')
             = None"
      and R: "resolveRunSpec (with_dirs h spec) spec = Inr (IsCommand resolved)"
      and P: "preCommands resolved = Some pcs"
      and K: "k < length pcs"
      and OK: "\<forall>j<k. pre_ok (proc h (length (spawned w) + j))"
      and F: "\<not> pre_ok (proc h (length (spawned w) + k))"
  shows "fst (runValidate h spec w) =
           Inr (createErrorResult h ''pre_command_failed''
                  (pre_failure_text k (join_with '' '' (pc_argv (pcs ! k)))
                     (pre_log_path h
                        (path_join h (path_resolve h (projectRoot spec) (artifactsDir spec)) ''logs'') k)
                     (proc h (length (spawned w) + k))))
       \<and> map sp_args (spawned (snd (runValidate h spec w)))
           = map sp_args (spawned w)
             @ map (\<lambda>pc. [''-l'', ''-c'', join_with '' '' (pc_argv pc)]) (take (Suc k) pcs)"
proof -
  have OK': "\<forall>j<k. pre_ok (proc (with_dirs h spec) (length (spawned w) + j))" using OK by simp
  have F': "\<not> pre_ok (proc (with_dirs h spec) (length (spawned w) + k))" using F by simp
  note X = runFromResolve_pre_failure[OF R P K OK' F']
  show ?thesis
    unfolding runValidate_fst_snd[OF D1 D2] using X by simp
qed

lemma runValidate_pre_success:
  assumes D1: "mkdir_throws h (path_join h (path_resolve h (projectRoot spec) (artifactsDir spec)) ''logs'')
             = None"
      and D2: "mkdir_throws h (path_join h (path_resolve h (projectRoot spec) (artifactsDir spec)) ''reports'')
             = None"
      and R: "resolveRunSpec (with_dirs h spec) spec = Inr (IsCommand resolved)"
      and P: "preCommands resolved = Some pcs"
      and N: "pcs \<noteq> []"
      and OK: "\<forall>j<length pcs. pre_ok (proc h (length (spawned w) + j))"
      and M: "proc h (length (spawned w) + length pcs) = CloseEvent code fired out"
      and W1: "write_throws h
                 (path_join h (path_join h (path_resolve h (projectRoot spec) (artifactsDir spec)) ''logs'')
                    ''stdout.log'') = None"
      and W2: "write_throws h
                 (path_join h (path_join h (path_resolve h (projectRoot spec) (artifactsDir spec)) ''logs'')
                    ''stderr.log'') = None"
  shows "(case fst (runValidate h spec w) of
            Inr r \<Rightarrow> rr_status r = deriveStatus \<lparr> cr_exitCode = code, cr_stdout = out_stdout out,
                                    cr_stderr = out_stderr out, cr_timedOut = fired,
                                    cr_durationMs = out_durationMs out \<rparr>
          | Inl x \<Rightarrow> False)
       \<and> map sp_args (spawned (snd (runValidate h spec w)))
           = map sp_args (spawned w)
             @ map (\<lambda>pc. [''-l'', ''-c'', join_with '' '' (pc_argv pc)]) pcs
             @ [[''-l'', ''-c'', join_with '' '' (prepareCommandWithReporter resolved)]]"
proof -
  have OK': "\<forall>j<length pcs. pre_ok (proc (with_dirs h spec) (length (spawned w) + j))"
    using OK by simp
  have M': "proc (with_dirs h spec) (length (spawned w) + length pcs) = CloseEvent code fired out"
    using M by simp
  have W1': "write_throws (with_dirs h spec)
                 (path_join (with_dirs h spec)
                    (path_join (with_dirs h spec)
                       (path_resolve (with_dirs h spec) (projectRoot spec) (artifactsDir spec)) ''logs'')
                    ''stdout.log'') = None"
    using W1 by simp
  have W2': "write_throws (with_dirs h spec)
                 (path_join (with_dirs h spec)
                    (path_join (with_dirs h spec)
                       (path_resolve (with_dirs h spec) (projectRoot spec) (artifactsDir spec)) ''logs'')
                    ''stderr.log'') = None"
    using W2 by simp
  note X = runFromResolve_pre_success[OF R P N OK' M' W1' W2']
  show ?thesis
    unfolding runValidate_fst_snd[OF D1 D2] using X by (simp split: sum.splits)
qed

text \<open>The progress notification of a pre-command numbers it from \<open>1\<close>: when the
  pre-command at index \<open>k\<close> is the first that fails, the last notification of the loop is
  \<open>[k + 1/n]\<close> followed by the command.\<close>

lemma progress_write_log [simp]: "progress (write_log p w) = progress w"
  by (cases p) (simp_all add: write_log_def)

lemma progress_runCommand [simp]: "progress (snd (runCommand h a opts w)) = progress w"
  by (cases "proc h (length (spawned w))") (simp_all add: runCommand_def Let_def)

lemma pre_from_fail_progress:
  assumes "k < length pcs"
      and "\<forall>j<k. pre_ok (proc h (length (spawned w) + j))"
      and "\<not> pre_ok (proc h (length (spawned w) + k))"
  shows "last (progress (snd (runPreCommands_from h pcs i n e l w)))
           = (''pre_command'',
              ''['' @ show_nat (i + k + 1) @ ''/'' @ show_nat n @ ''] ''
                @ join_with '' '' (pc_argv (pcs ! k)))"
  using assms
proof (induction pcs arbitrary: k i w)
  case Nil
  then show ?case by simp
next
  case (Cons pc rest)
  let ?w2 = "snd (runCommand h (pc_argv pc)
                \<lparr> opt_cwd = (case pc_cwd pc of Some c \<Rightarrow> c | None \<Rightarrow> process_cwd h),
                  opt_env = (case pc_env pc of None \<Rightarrow> e | Some x \<Rightarrow> e ++ x),
                  opt_timeoutMs = PRE_COMMAND_TIMEOUT_MS,
                  opt_logPath = Some (pre_log_path h l i) \<rparr>
                (onProgress ''pre_command''
                   (''['' @ show_nat (i + 1) @ ''/'' @ show_nat n @ ''] ''
                      @ join_with '' '' (pc_argv pc)) w))"
  have L: "length (spawned ?w2) = Suc (length (spawned w))"
    by (simp add: length_spawned_runCommand spawned_onProgress)
  show ?case
  proof (cases k)
    case 0
    then have "\<not> pre_ok (proc h (length (spawned w)))" using Cons.prems(3) by simp
    then show ?thesis
      using 0 by (simp add: pre_step Let_def onProgress_def del: runPreCommands_from.simps)
  next
    case (Suc k')
    have ok0: "pre_ok (proc h (length (spawned w)))"
      using Cons.prems(2) Suc by (metis add.right_neutral zero_less_Suc)
    have 1: "k' < length rest" using Cons.prems(1) Suc by simp
    have 2: "\<forall>j<k'. pre_ok (proc h (length (spawned ?w2) + j))"
    proof (intro allI impI)
      fix j assume "j < k'"
      then have "Suc j < k" using Suc by simp
      then have "pre_ok (proc h (length (spawned w) + Suc j))" using Cons.prems(2) by blast
      then show "pre_ok (proc h (length (spawned ?w2) + j))" unfolding L by simp
    qed
    have 3: "\<not> pre_ok (proc h (length (spawned ?w2) + k'))"
      using Cons.prems(3) Suc unfolding L by simp
    from Cons.IH[OF 1 2 3, of "i + 1"]
    show ?thesis
      using ok0 Suc by (simp add: pre_step Let_def del: runPreCommands_from.simps)
  qed
qed

lemma runValidate_pre_failure_progress:
  assumes D1: "mkdir_throws h (path_join h (path_resolve h (projectRoot spec) (artifactsDir spec)) ''logs'')
             = None"
      and D2: "mkdir_throws h (path_join h (path_resolve h (projectRoot spec) (artifactsDir spec)) ''reports'')
             = None"
      and R: "resolveRunSpec (with_dirs h spec) spec = Inr (IsCommand resolved)"
      and P: "preCommands resolved = Some pcs"
      and K: "k < length pcs"
      and OK: "\<forall>j<k. pre_ok (proc h (length (spawned w) + j))"
      and F: "\<not> pre_ok (proc h (length (spawned w) + k))"
  shows "last (progress (snd (runValidate h spec w)))
           = (''pre_command'',
              ''['' @ show_nat (k + 1) @ ''/'' @ show_nat (length pcs) @ ''] ''
                @ join_with '' '' (pc_argv (pcs ! k)))"
proof -
  let ?G = "with_dirs h spec"
  let ?w1 = "onProgress ''setup''
                    (''Running '' @ show_nat (length pcs) @ '' setup command(s)...'')
                    (onProgress ''resolve'' ''Resolving test command...'' w)"
  have S: "spawned ?w1 = spawned w" by (simp add: spawned_onProgress)
  have N: "pcs \<noteq> []" using K by auto
  have OK': "\<forall>j<k. pre_ok (proc ?G (length (spawned w) + j))" using OK by simp
  have F': "\<not> pre_ok (proc ?G (length (spawned w) + k))" using F by simp
  note X = pre_from_fail[where w = ?w1 and h = ?G and pcs = pcs and k = k and i = 0,
                         unfolded S, OF K OK' F', THEN conjunct1]
  note Y = pre_from_fail_progress[where w = ?w1 and h = ?G and pcs = pcs and k = k and i = 0,
                         unfolded S, OF K OK' F']
  show ?thesis
    unfolding runValidate_fst_snd[OF D1 D2] runFromResolve_with_pre[OF R P N] Let_def
    using X Y by simp
qed

lemma posix_ancestors_setup:
  "posix_ancestors ''/proj/artifacts/logs''
     = [''/proj/artifacts/logs'', ''/proj'', ''/proj/artifacts'']"
  "posix_ancestors ''/proj/artifacts/reports''
     = [''/proj/artifacts/reports'', ''/proj'', ''/proj/artifacts'']"
  by code_simp+

text \<open>In the project of \<open>setup_host\<close> no \<^verbatim>\<open>mkdirSync\<close> and no \<^verbatim>\<open>writeFileSync\<close>
  throws, and with the two directories created the specification without caller fields
  resolves to \<open>setup_command\<close>.\<close>

lemma setup_host_no_throw:
  "mkdir_throws (setup_host procs) p = None" "write_throws (setup_host procs) p = None"
  by (simp_all add: setup_host_def example_host_def)

lemma setup_paths:
  "path_join (setup_host procs)
     (path_resolve (setup_host procs) (projectRoot (example_spec s c a k))
        (artifactsDir (example_spec s c a k))) ''logs'' = ''/proj/artifacts/logs''"
  "path_join (setup_host procs)
     (path_resolve (setup_host procs) (projectRoot (example_spec s c a k))
        (artifactsDir (example_spec s c a k))) ''reports'' = ''/proj/artifacts/reports''"
  by (simp_all add: setup_host_def example_defs)

lemma setup_host_dirs:
  "existsSync (with_dirs (setup_host procs) (example_spec s c a k)) q \<longleftrightarrow>
     q \<in> set [''/proj'', ''/proj/kitwe.yaml'', ''/proj/artifacts'', ''/proj/artifacts/logs'',
              ''/proj/artifacts/reports'']"
proof -
  have "existsSync (with_dirs (setup_host procs) (example_spec s c a k)) q
      = ((q \<in> set [''/proj'', ''/proj/kitwe.yaml'']
            \<or> q \<in> set (posix_ancestors ''/proj/artifacts/logs''))
          \<or> q \<in> set (posix_ancestors ''/proj/artifacts/reports''))"
    unfolding with_dirs_def Let_def setup_paths
    by (simp add: setup_host_def example_host_def)
  then show ?thesis
    unfolding posix_ancestors_setup by auto
qed

lemma setup_host_resolves:
  "resolveRunSpec (with_dirs (setup_host procs) (example_spec None None None None))
     (example_spec None None None None)
     = Inr (IsCommand setup_command)"
proof -
  define G where "G = with_dirs (setup_host procs) (example_spec None None None None)"
  have Ex: "existsSync G q \<longleftrightarrow>
              q \<in> set [''/proj'', ''/proj/kitwe.yaml'', ''/proj/artifacts'', ''/proj/artifacts/logs'',
                   ''/proj/artifacts/reports'']" for q
    unfolding G_def by (rule setup_host_dirs)
  have Pr: "path_resolve G = posix_resolve"
    by (simp add: G_def setup_host_def example_host_def)
  have Ya: "yaml_at G q = YamlMapping (example_doc (Some ''test:e2e'') None False
                      (Some [example_pre [''npm'', ''run'', ''db:reset''],
                             example_pre [''npm'', ''run'', ''db:seed'']]) None None)" for q
    by (simp add: G_def setup_host_def example_host_def)
  have P: "projectRoot (example_spec None None None None) = ''/proj''"
    by (simp add: example_spec_def)
  have X: "extractPreCommands G (example_spec None None None None)
             = preCommands setup_command"
    by (simp add: extractPreCommands_def getRunPreCommands_def getConfigPath_def resolveCwd_def
          truthy_def Ex Pr Ya example_doc_valid P Let_def)
       (simp add: example_spec_def example_config_def example_pre_def setup_command_def
          posix_resolve_def startsWith_def)
  have L: "loadRunConfig G ''/proj''
             = Inr (Some (kc_run (convertToTypescript
                  (example_config (Some ''test:e2e'') None False
                      (Some [example_pre [''npm'', ''run'', ''db:reset''],
                             example_pre [''npm'', ''run'', ''db:seed'']]) None None))))"
    by (simp add: loadRunConfig_def loadProjectConfig_def getConfigPath_def Ex Pr Ya
          example_doc_valid posix_resolve_def startsWith_def Let_def)
  have E: "existsSync G ''/proj''"
    by (simp add: Ex)
  have D: "detectPackageManager G ''/proj'' = npm"
    by (simp add: detectPackageManager_def Ex Pr posix_resolve_def startsWith_def)
  show ?thesis
    unfolding resolveRunSpec_def P G_def[symmetric]
    using E L X D
    by (simp add: resolveFromRunConfig_modes P truthy_def convertToTypescript_def
          example_config_def given_args_def Let_def)
       (simp add: example_spec_def setup_command_def)
qed

text \<open>A project root that does not exist is created by the recursive \<^verbatim>\<open>mkdirSync\<close>
  of the logs directory below it, so that the run of a specification without entry point
  ends with \<open>no_entrypoint\<close>, not with \<open>project_not_found\<close>.\<close>

lemma missing_root_is_created:
  "fst (runValidate (example_host [] YamlEmpty (\<lambda>d. None) (\<lambda>n. SpawnThrows []))
          (example_spec None None None None) new_world)
   = Inr (createErrorResult (example_host [] YamlEmpty (\<lambda>d. None) (\<lambda>n. SpawnThrows []))
            ''no_entrypoint'' no_entrypoint_message)"
proof -
  let ?H = "example_host [] YamlEmpty (\<lambda>d. None) (\<lambda>n. SpawnThrows [])"
  let ?S = "example_spec None None None None"
  have D: "mkdir_throws ?H p = None" for p by (simp add: example_host_def)
  have L: "path_join ?H (path_resolve ?H (projectRoot ?S) (artifactsDir ?S)) ''logs''
             = ''/proj/artifacts/logs''"
    by (simp add: example_defs)
  have E: "existsSync (with_dirs ?H ?S) (projectRoot ?S)"
    by (rule created_root_exists) (simp add: L, simp add: example_host_def example_spec_def posix_ancestors_setup)
  have N: "\<not> existsSync (with_dirs ?H ?S) (getConfigPath (with_dirs ?H ?S) (projectRoot ?S))"
    unfolding with_dirs_def Let_def getConfigPath_def
    by (simp add: example_defs posix_ancestors_setup)
  have R: "resolveRunSpec (with_dirs ?H ?S) ?S = Inr no_entrypoint"
    using E N
    by (simp add: resolveRunSpec_def loadRunConfig_def loadProjectConfig_def Let_def)
       (simp add: example_spec_def truthy_def)
  show ?thesis
    unfolding runValidate_fst_snd[OF D D]
    by (simp add: runFromResolve_def R no_entrypoint_def Let_def)
qed

lemma show_nat_digits:
  "show_nat 0 = ''0''" "show_nat 1 = ''1''" "show_nat (Suc 0) = ''1''" "show_nat 2 = ''2''"
  "show_nat (Suc (Suc 0)) = ''2''"
  by code_simp+

lemma show_exit_codes: "show_exit_code (Some 1) = ''1''" "show_exit_code (Some 2) = ''2''"
  by code_simp+

text \<open>
  Claim C7, at the input where it fails. The first of two pre-commands (position \<open>1\<close>)
  exits with code \<open>1\<close>. The summary of the result names it step \<open>0\<close>, with the log
  \<open>pre_command_0.log\<close>, and nowhere \<open>Pre-command 1\<close>, while the progress notification
  of the same step, the last one sent, numbers it \<open>1\<close> of \<open>2\<close>.
\<close>

theorem first_pre_command_named_zero:
  "fst (runValidate (setup_host (\<lambda>n. CloseEvent (Some 1) False quiet))
          (example_spec None None None None) new_world)
   = Inr (createErrorResult (setup_host (\<lambda>n. CloseEvent (Some 1) False quiet))
            ''pre_command_failed''
            (''Pre-command 0 failed with exit code 1: npm run db:reset'' @ nl
             @ ''See log: /proj/artifacts/logs/pre_command_0.log''))
   \<and> \<not> str_includes (''Pre-command 0 failed with exit code 1: npm run db:reset'' @ nl
             @ ''See log: /proj/artifacts/logs/pre_command_0.log'') ''Pre-command 1''
   \<and> last (progress (snd (runValidate (setup_host (\<lambda>n. CloseEvent (Some 1) False quiet))
                            (example_spec None None None None) new_world)))
       = (''pre_command'', ''[1/2] npm run db:reset'')"
proof -
  let ?H = "setup_host (\<lambda>n. CloseEvent (Some 1) False quiet)"
  let ?pcs = "[\<lparr> pc_argv = [''npm'', ''run'', ''db:reset''], pc_env = None,
                       pc_cwd = Some ''/proj'' \<rparr>,
                     \<lparr> pc_argv = [''npm'', ''run'', ''db:seed''], pc_env = None,
                       pc_cwd = Some ''/proj'' \<rparr>]"
  have P: "preCommands setup_command = Some ?pcs"
    by (simp add: setup_command_def)
  have K: "(0::nat) < length ?pcs"
    by simp
  have OK: "\<forall>j<0. pre_ok (proc ?H (length (spawned new_world) + j))"
    by simp
  have F: "\<not> pre_ok (proc ?H (length (spawned new_world) + 0))"
    by (simp add: setup_host_def example_host_def new_world_def pre_ok_def)
  note T = runValidate_pre_failure[OF setup_host_no_throw(1) setup_host_no_throw(1)
                                      setup_host_resolves P K OK F, THEN conjunct1]
  note U = runValidate_pre_failure_progress[OF setup_host_no_throw(1) setup_host_no_throw(1)
                                      setup_host_resolves P K OK F]
  have V: "proc ?H (length (spawned new_world) + 0) = CloseEvent (Some 1) False quiet"
    by (simp add: setup_host_def example_host_def new_world_def)
  have A: "pre_log_path ?H
             (path_join ?H (path_resolve ?H (projectRoot (example_spec None None None None))
                                          (artifactsDir (example_spec None None None None))) ''logs'') 0
           = ''/proj/artifacts/logs/pre_command_0.log''"
    by (simp add: pre_log_path_def setup_host_def example_defs show_nat_digits)
  have 1: "fst (runValidate ?H (example_spec None None None None) new_world)
   = Inr (createErrorResult ?H ''pre_command_failed''
            (''Pre-command 0 failed with exit code 1: npm run db:reset'' @ nl
             @ ''See log: /proj/artifacts/logs/pre_command_0.log''))"
    using T unfolding V A
    by (simp add: pre_failure_text_def show_nat_digits show_exit_codes)
  have 2: "\<not> str_includes (''Pre-command 0 failed with exit code 1: npm run db:reset'' @ nl
             @ ''See log: /proj/artifacts/logs/pre_command_0.log'') ''Pre-command 1''"
    by code_simp
  have 3: "last (progress (snd (runValidate ?H (example_spec None None None None) new_world)))
       = (''pre_command'', ''[1/2] npm run db:reset'')"
    using U by (simp add: show_nat_digits)
  show ?thesis using 1 2 3 by (intro conjI)
qed

text \<open>
  Claim C3, at the input where it fails. The first of two pre-commands runs into its
  timeout (the timer fires and the process is signalled) and then closes with exit code
  \<open>0\<close>; \<open>runPreCommands\<close> looks at the exit code only, so the second pre-command and
  the main command are spawned all the same and the run ends with status \<open>passed\<close>.
  For a pre-command that ends with another exit code or none, or whose spawn throws,
  \<open>runValidate_pre_failure\<close> above shows that nothing is spawned after it.
\<close>

theorem timed_out_pre_command_continues:
  "(case fst (runValidate
          (setup_host (\<lambda>n. if n = 0 then CloseEvent (Some 0) True quiet
                           else CloseEvent (Some 0) False quiet))
          (example_spec None None None None) new_world) of
      Inr r \<Rightarrow> rr_status r = passed
    | Inl x \<Rightarrow> False)
   \<and> map sp_args (spawned (snd (runValidate
          (setup_host (\<lambda>n. if n = 0 then CloseEvent (Some 0) True quiet
                           else CloseEvent (Some 0) False quiet))
          (example_spec None None None None) new_world)))
     = [[''-l'', ''-c'', ''npm run db:reset''],
        [''-l'', ''-c'', ''npm run db:seed''],
        [''-l'', ''-c'', ''npm run test:e2e -- --reporter=list --trace=retain-on-failure'']]"
proof -
  let ?H = "setup_host (\<lambda>n. if n = 0 then CloseEvent (Some 0) True quiet
                           else CloseEvent (Some 0) False quiet)"
  let ?pcs = "[\<lparr> pc_argv = [''npm'', ''run'', ''db:reset''], pc_env = None,
                       pc_cwd = Some ''/proj'' \<rparr>,
                     \<lparr> pc_argv = [''npm'', ''run'', ''db:seed''], pc_env = None,
                       pc_cwd = Some ''/proj'' \<rparr>]"
  have P: "preCommands setup_command = Some ?pcs"
    by (simp add: setup_command_def)
  have N: "?pcs \<noteq> []" by simp
  have OK: "\<forall>j<length ?pcs. pre_ok (proc ?H (length (spawned new_world) + j))"
    by (simp add: setup_host_def example_host_def new_world_def pre_ok_def)
  have M: "proc ?H (length (spawned new_world) + length ?pcs) = CloseEvent (Some 0) False quiet"
    by (simp add: setup_host_def example_host_def new_world_def)
  note T = runValidate_pre_success[OF setup_host_no_throw(1) setup_host_no_throw(1)
                                      setup_host_resolves P N OK M
                                      setup_host_no_throw(2) setup_host_no_throw(2)]
  have A: "join_with '' '' (prepareCommandWithReporter setup_command)
             = ''npm run test:e2e -- --reporter=list --trace=retain-on-failure''"
    unfolding setup_command_def by code_simp
  show ?thesis
    using T unfolding A
    by (simp add: deriveStatus_def new_world_def split: sum.splits)
qed

end
